theory Spec2Isabelle
  imports Complex_Main
begin

section \<open>The arithmetic of \<^verbatim>\<open>double\<close>\<close>

text \<open>
  \<^verbatim>\<open>probability_space.h\<close> computes with \<^verbatim>\<open>double\<close>. The operations it applies
  to doubles are collected in a record that every function of the model takes as its first
  argument: the literals \<^verbatim>\<open>0.0\<close>, \<^verbatim>\<open>1.0\<close> and \<^verbatim>\<open>1e-9\<close>, the operators
  \<^verbatim>\<open>+\<close>, \<^verbatim>\<open>-\<close>, \<^verbatim>\<open>/\<close>, \<^verbatim>\<open>std::abs\<close>, \<^verbatim>\<open><\<close> and \<^verbatim>\<open>==\<close>.
  \<^verbatim>\<open>a > b\<close> is \<^verbatim>\<open>b < a\<close> and \<^verbatim>\<open>a != b\<close> is the negation of \<^verbatim>\<open>a == b\<close>.
  A theorem stated for every such record holds whatever the rounding of the machine is.
\<close>

record 'd arith =
  d_zero :: 'd
  d_one :: 'd
  d_1e_9 :: 'd
  d_add :: "'d \<Rightarrow> 'd \<Rightarrow> 'd"
  d_sub :: "'d \<Rightarrow> 'd \<Rightarrow> 'd"
  d_div :: "'d \<Rightarrow> 'd \<Rightarrow> 'd"
  d_abs :: "'d \<Rightarrow> 'd"
  d_less :: "'d \<Rightarrow> 'd \<Rightarrow> bool"
  d_eq :: "'d \<Rightarrow> 'd \<Rightarrow> bool"

text \<open>
  Two arithmetics in which examples are evaluated. Neither is the arithmetic of
  \<^verbatim>\<open>double\<close>: the theorems about the class are stated for every arithmetic, and
  these two show that their hypotheses can be met. \<open>real_arith\<close> is the arithmetic of
  the reals: no operation rounds, there is no NaN and no infinity, and \<^verbatim>\<open>1e-9\<close> is
  \<open>1 / 10 ^ 9\<close>.
\<close>

definition real_arith :: "real arith" where
  "real_arith =
     \<lparr>d_zero = 0, d_one = 1, d_1e_9 = 1 / 10 ^ 9,
      d_add = (+), d_sub = (-), d_div = (/), d_abs = abs,
      d_less = (<), d_eq = (=)\<rparr>"

text \<open>
  \<open>nan_arith\<close> is the reals with one more value, \<open>NaN\<close>: an operation with a NaN operand
  returns NaN and a comparison with a NaN operand is false, as for doubles. It has no
  infinities; a quotient by zero, which the class never forms (the conditional query
  tests the divisor first), is NaN here.
\<close>

datatype num_or_nan = Num real | NaN

fun lift2 :: "(real \<Rightarrow> real \<Rightarrow> real) \<Rightarrow> num_or_nan \<Rightarrow> num_or_nan \<Rightarrow> num_or_nan" where
  "lift2 f (Num x) (Num y) = Num (f x y)"
| "lift2 f a b = NaN"

fun quotient :: "num_or_nan \<Rightarrow> num_or_nan \<Rightarrow> num_or_nan" where
  "quotient (Num x) (Num y) = (if y = 0 then NaN else Num (x / y))"
| "quotient a b = NaN"

fun magnitude :: "num_or_nan \<Rightarrow> num_or_nan" where
  "magnitude (Num x) = Num \<bar>x\<bar>"
| "magnitude NaN = NaN"

fun compare2 :: "(real \<Rightarrow> real \<Rightarrow> bool) \<Rightarrow> num_or_nan \<Rightarrow> num_or_nan \<Rightarrow> bool" where
  "compare2 r (Num x) (Num y) = r x y"
| "compare2 r a b = False"

definition nan_arith :: "num_or_nan arith" where
  "nan_arith =
     \<lparr>d_zero = Num 0, d_one = Num 1, d_1e_9 = Num (1 / 10 ^ 9),
      d_add = lift2 (+), d_sub = lift2 (-), d_div = quotient, d_abs = magnitude,
      d_less = compare2 (<), d_eq = compare2 (=)\<rparr>"

text \<open>\<^verbatim>\<open>constexpr double EPSILON = 1e-9;\<close>\<close>

definition EPSILON :: "'d arith \<Rightarrow> 'd" where
  "EPSILON ar = d_1e_9 ar"

subsection \<open>Rules of double arithmetic that theorems take as hypotheses\<close>

text \<open>\<^verbatim>\<open>x <= y\<close> is \<^verbatim>\<open>x < y || x == y\<close>, and a double is a NaN when \<^verbatim>\<open>x != x\<close>.\<close>

definition d_le :: "'d arith \<Rightarrow> 'd \<Rightarrow> 'd \<Rightarrow> bool" where
  "d_le ar x y = (d_less ar x y \<or> d_eq ar x y)"

definition isnan :: "'d arith \<Rightarrow> 'd \<Rightarrow> bool" where
  "isnan ar x = (\<not> d_eq ar x x)"

text \<open>
  IEEE 754 on NaN: a sum, a difference and the absolute value of a NaN are NaN, and
  \<^verbatim>\<open><\<close> and \<^verbatim>\<open>==\<close> with a NaN operand are false.
\<close>

definition nan_rules :: "'d arith \<Rightarrow> bool" where
  "nan_rules ar =
     (\<forall>x y. isnan ar x \<longrightarrow>
        isnan ar (d_add ar x y) \<and> isnan ar (d_add ar y x) \<and>
        isnan ar (d_sub ar x y) \<and> isnan ar (d_sub ar y x) \<and>
        isnan ar (d_abs ar x) \<and>
        \<not> d_less ar x y \<and> \<not> d_less ar y x \<and> \<not> d_eq ar x y \<and> \<not> d_eq ar y x)"

text \<open>
  IEEE 754 on order and rounded addition: of two doubles that are no NaN, one is
  \<^verbatim>\<open><=\<close> the other; \<^verbatim>\<open><=\<close> is transitive; \<^verbatim>\<open>0.0\<close> is no NaN; adding a
  non-negative double to a non-negative double never returns less than the latter; and
  that addition is monotone in the latter. Rounding to nearest (as every rounding mode)
  is monotone and maps a double to itself, which gives the last two.
\<close>

definition ordered_addition :: "'d arith \<Rightarrow> bool" where
  "ordered_addition ar =
     ((\<forall>x y. \<not> isnan ar x \<and> \<not> isnan ar y \<and> \<not> d_less ar x y \<longrightarrow> d_le ar y x) \<and>
      (\<forall>x y z. d_le ar x y \<and> d_le ar y z \<longrightarrow> d_le ar x z) \<and>
      \<not> isnan ar (d_zero ar) \<and>
      (\<forall>a c. d_le ar (d_zero ar) a \<and> d_le ar (d_zero ar) c \<longrightarrow> d_le ar a (d_add ar a c)) \<and>
      (\<forall>a b c. d_le ar (d_zero ar) a \<and> d_le ar a b \<and> d_le ar (d_zero ar) c \<longrightarrow>
         d_le ar (d_add ar a c) (d_add ar b c)))"

section \<open>Exceptions\<close>

text \<open>
  Every failure of the class is a \<^verbatim>\<open>throw std::invalid_argument(msg)\<close>; the exception
  carries its message, which \<^verbatim>\<open>what()\<close> returns to the caller.
\<close>

datatype exn = invalid_argument string

fun what :: "exn \<Rightarrow> string" where
  "what (invalid_argument msg) = msg"

section \<open>Ordered containers and the standard algorithms on them\<close>

text \<open>
  A \<^verbatim>\<open>std::set<T>\<close> is the list of its elements in iteration order, which is strictly
  ascending; a \<^verbatim>\<open>std::map<T, double>\<close> is the list of its entries, strictly ascending
  in the key. \<^verbatim>\<open>space.find(outcome)\<close> is \<open>map_of\<close>.
\<close>

text \<open>\<^verbatim>\<open>std::set::insert\<close>: an element that is already there is not inserted again.\<close>

fun set_insert :: "'a::linorder \<Rightarrow> 'a list \<Rightarrow> 'a list" where
  "set_insert x [] = [x]"
| "set_insert x (y # ys) =
     (if x < y then x # y # ys
      else if y < x then y # set_insert x ys
      else y # ys)"

text \<open>Writing a range through \<^verbatim>\<open>std::inserter(c, hint)\<close> inserts its elements into \<open>c\<close> one by one.\<close>

fun std_inserter :: "'a::linorder list \<Rightarrow> 'a list \<Rightarrow> 'a list" where
  "std_inserter c [] = c"
| "std_inserter c (x # xs) = std_inserter (set_insert x c) xs"

text \<open>\<^verbatim>\<open>std::includes(first1, last1, first2, last2)\<close> on two sorted ranges.\<close>

fun std_includes :: "'a::linorder list \<Rightarrow> 'a list \<Rightarrow> bool" where
  "std_includes xs [] = True"
| "std_includes [] (y # ys) = False"
| "std_includes (x # xs) (y # ys) =
     (if y < x then False
      else if \<not> x < y then std_includes xs ys
      else std_includes xs (y # ys))"

text \<open>\<^verbatim>\<open>std::set_union\<close>: the merge of two sorted ranges, an element of both taken once.\<close>

fun std_set_union :: "'a::linorder list \<Rightarrow> 'a list \<Rightarrow> 'a list" where
  "std_set_union [] ys = ys"
| "std_set_union (x # xs) [] = x # xs"
| "std_set_union (x # xs) (y # ys) =
     (if y < x then y # std_set_union (x # xs) ys
      else if \<not> x < y then x # std_set_union xs ys
      else x # std_set_union xs (y # ys))"

text \<open>\<^verbatim>\<open>std::set_intersection\<close>: the elements found in both sorted ranges.\<close>

fun std_set_intersection :: "'a::linorder list \<Rightarrow> 'a list \<Rightarrow> 'a list" where
  "std_set_intersection [] ys = []"
| "std_set_intersection (x # xs) [] = []"
| "std_set_intersection (x # xs) (y # ys) =
     (if x < y then std_set_intersection xs (y # ys)
      else if \<not> y < x then x # std_set_intersection xs ys
      else std_set_intersection (x # xs) ys)"

section \<open>The class \<^verbatim>\<open>ProbabilitySpace<T>\<close>\<close>

record ('a, 'd) probability_space =
  space :: "('a \<times> 'd) list"
  events :: "'a list"
  ignoreUnknown :: bool

text \<open>\<^verbatim>\<open>getKeys\<close>: \<^verbatim>\<open>std::transform\<close> of the entries to their keys, inserted into a set.\<close>

definition getKeys :: "('a::linorder \<times> 'd) list \<Rightarrow> 'a list" where
  "getKeys pSpace = std_inserter [] (map fst pSpace)"

definition isSubset :: "('a::linorder, 'd) probability_space \<Rightarrow> 'a list \<Rightarrow> exn + unit" where
  "isSubset ps event =
     (if \<not> ignoreUnknown ps \<and> \<not> std_includes (events ps) event
      then Inl (invalid_argument ''Event contains outcome not in sample space'')
      else Inr ())"

text \<open>The loop of \<^verbatim>\<open>validProbabilitySpace\<close> over the entries, with the running total \<open>tot\<close>.\<close>

fun validProbabilitySpace_loop :: "'d arith \<Rightarrow> ('a \<times> 'd) list \<Rightarrow> 'd \<Rightarrow> exn + 'd" where
  "validProbabilitySpace_loop ar [] tot = Inr tot"
| "validProbabilitySpace_loop ar ((k, v) # rest) tot =
     (if d_less ar v (d_zero ar)
      then Inl (invalid_argument ''Probabilities must be nonnegative'')
      else validProbabilitySpace_loop ar rest (d_add ar tot v))"

definition validProbabilitySpace :: "'d arith \<Rightarrow> ('a \<times> 'd) list \<Rightarrow> exn + unit" where
  "validProbabilitySpace ar mapping =
     (case validProbabilitySpace_loop ar mapping (d_zero ar) of
        Inl e \<Rightarrow> Inl e
      | Inr tot \<Rightarrow>
          if d_less ar (EPSILON ar) (d_abs ar (d_sub ar tot (d_one ar)))
          then Inl (invalid_argument ''Probabilities must sum to 1'')
          else Inr ())"

text \<open>The loop of \<^verbatim>\<open>probabilityCalculator\<close> over the outcomes of the event.\<close>

fun probabilityCalculator_loop ::
  "'d arith \<Rightarrow> ('a::linorder, 'd) probability_space \<Rightarrow> 'a list \<Rightarrow> 'd \<Rightarrow> exn + 'd" where
  "probabilityCalculator_loop ar ps [] tot = Inr tot"
| "probabilityCalculator_loop ar ps (outcome # rest) tot =
     (let it = map_of (space ps) outcome;
          eventExists = (it \<noteq> None)
      in if \<not> ignoreUnknown ps \<and> \<not> eventExists
         then Inl (invalid_argument ''Event contains outcome not in sample space'')
         else if eventExists
         then probabilityCalculator_loop ar ps rest (d_add ar tot (the it))
         else probabilityCalculator_loop ar ps rest tot)"

definition probabilityCalculator ::
  "'d arith \<Rightarrow> ('a::linorder, 'd) probability_space \<Rightarrow> 'a list \<Rightarrow> exn + 'd" where
  "probabilityCalculator ar ps event =
     (case isSubset ps event of
        Inl e \<Rightarrow> Inl e
      | Inr _ \<Rightarrow> probabilityCalculator_loop ar ps event (d_zero ar))"

definition complement ::
  "'d arith \<Rightarrow> ('a::linorder, 'd) probability_space \<Rightarrow> 'a list \<Rightarrow> exn + 'd" where
  "complement ar ps event =
     (case probabilityCalculator ar ps event of
        Inl e \<Rightarrow> Inl e
      | Inr p \<Rightarrow> Inr (d_sub ar (d_one ar) p))"

definition unionEvents ::
  "'d arith \<Rightarrow> ('a::linorder, 'd) probability_space \<Rightarrow> 'a list \<Rightarrow> 'a list \<Rightarrow> exn + 'd" where
  "unionEvents ar ps eventA eventB =
     (case isSubset ps eventA of
        Inl e \<Rightarrow> Inl e
      | Inr _ \<Rightarrow>
          (case isSubset ps eventB of
             Inl e \<Rightarrow> Inl e
           | Inr _ \<Rightarrow>
               (let unioned = std_inserter [] (std_set_union eventA eventB)
                in probabilityCalculator ar ps unioned)))"

definition intersectionEvents ::
  "'d arith \<Rightarrow> ('a::linorder, 'd) probability_space \<Rightarrow> 'a list \<Rightarrow> 'a list \<Rightarrow> exn + 'd" where
  "intersectionEvents ar ps eventA eventB =
     (case isSubset ps eventA of
        Inl e \<Rightarrow> Inl e
      | Inr _ \<Rightarrow>
          (case isSubset ps eventB of
             Inl e \<Rightarrow> Inl e
           | Inr _ \<Rightarrow>
               (let intersected = std_inserter [] (std_set_intersection eventA eventB)
                in probabilityCalculator ar ps intersected)))"

text \<open>\<^verbatim>\<open>_conditionalProbability\<close> (an Isabelle name cannot start with an underscore).\<close>

definition priv_conditionalProbability ::
  "'d arith \<Rightarrow> ('a::linorder, 'd) probability_space \<Rightarrow> 'a list \<Rightarrow> 'a list \<Rightarrow> exn + 'd" where
  "priv_conditionalProbability ar ps eventA eventB =
     (case isSubset ps eventA of
        Inl e \<Rightarrow> Inl e
      | Inr _ \<Rightarrow>
          (case isSubset ps eventB of
             Inl e \<Rightarrow> Inl e
           | Inr _ \<Rightarrow>
               (case probabilityCalculator ar ps eventB of
                  Inl e \<Rightarrow> Inl e
                | Inr probB \<Rightarrow>
                    if \<not> d_eq ar probB (d_zero ar)
                    then (case intersectionEvents ar ps eventA eventB of
                            Inl e \<Rightarrow> Inl e
                          | Inr prob_AnB \<Rightarrow> Inr (d_div ar prob_AnB probB))
                    else Inl (invalid_argument
                      ''Tried to calculate conditional probability P(A|B) with B s.t. P(B)=0''))))"

subsection \<open>The public members\<close>

text \<open>The constructor: validate, derive the keys, keep the mapping; the mode starts as \<^verbatim>\<open>false\<close>.\<close>

definition ProbabilitySpace ::
  "'d arith \<Rightarrow> ('a::linorder \<times> 'd) list \<Rightarrow> exn + ('a, 'd) probability_space" where
  "ProbabilitySpace ar mapping =
     (case validProbabilitySpace ar mapping of
        Inl e \<Rightarrow> Inl e
      | Inr _ \<Rightarrow> Inr \<lparr>space = mapping, events = getKeys mapping, ignoreUnknown = False\<rparr>)"

definition probabilityOfSet ::
  "'d arith \<Rightarrow> ('a::linorder, 'd) probability_space \<Rightarrow> 'a list \<Rightarrow> exn + 'd" where
  "probabilityOfSet ar ps event = probabilityCalculator ar ps event"

definition complementOfEvent ::
  "'d arith \<Rightarrow> ('a::linorder, 'd) probability_space \<Rightarrow> 'a list \<Rightarrow> exn + 'd" where
  "complementOfEvent ar ps event = complement ar ps event"

definition unionOfEvents ::
  "'d arith \<Rightarrow> ('a::linorder, 'd) probability_space \<Rightarrow> 'a list \<Rightarrow> 'a list \<Rightarrow> exn + 'd" where
  "unionOfEvents ar ps eventA eventB = unionEvents ar ps eventA eventB"

definition intersectionOfEvents ::
  "'d arith \<Rightarrow> ('a::linorder, 'd) probability_space \<Rightarrow> 'a list \<Rightarrow> 'a list \<Rightarrow> exn + 'd" where
  "intersectionOfEvents ar ps eventA eventB = intersectionEvents ar ps eventA eventB"

definition conditionalProbability ::
  "'d arith \<Rightarrow> ('a::linorder, 'd) probability_space \<Rightarrow> 'a list \<Rightarrow> 'a list \<Rightarrow> exn + 'd" where
  "conditionalProbability ar ps eventA eventB = priv_conditionalProbability ar ps eventA eventB"

definition getCurrentMode :: "('a, 'd) probability_space \<Rightarrow> bool" where
  "getCurrentMode ps = ignoreUnknown ps"

definition setIgnoreUnknown :: "bool \<Rightarrow> ('a, 'd) probability_space \<Rightarrow> ('a, 'd) probability_space" where
  "setIgnoreUnknown mode ps = ps\<lparr>ignoreUnknown := mode\<rparr>"

subsection \<open>A caller's view of one object\<close>

text \<open>
  A call of a public member on an object, and what it does to the object. The five queries
  and \<^verbatim>\<open>getCurrentMode\<close> are declared \<^verbatim>\<open>const\<close> and the class has no
  \<^verbatim>\<open>mutable\<close> field: they hand the object back as they received it.
  \<^verbatim>\<open>setIgnoreUnknown\<close> is the only member that is not \<^verbatim>\<open>const\<close>.
\<close>

datatype 'a call =
    Call_probabilityOfSet "'a list"
  | Call_complementOfEvent "'a list"
  | Call_unionOfEvents "'a list" "'a list"
  | Call_intersectionOfEvents "'a list" "'a list"
  | Call_conditionalProbability "'a list" "'a list"
  | Call_getCurrentMode
  | Call_setIgnoreUnknown bool

datatype 'd reply = Returned_double "exn + 'd" | Returned_bool bool | Returned_void

fun member_call ::
  "'d arith \<Rightarrow> 'a::linorder call \<Rightarrow> ('a, 'd) probability_space \<Rightarrow>
   'd reply \<times> ('a, 'd) probability_space" where
  "member_call ar (Call_probabilityOfSet e) ps = (Returned_double (probabilityOfSet ar ps e), ps)"
| "member_call ar (Call_complementOfEvent e) ps = (Returned_double (complementOfEvent ar ps e), ps)"
| "member_call ar (Call_unionOfEvents a b) ps = (Returned_double (unionOfEvents ar ps a b), ps)"
| "member_call ar (Call_intersectionOfEvents a b) ps =
     (Returned_double (intersectionOfEvents ar ps a b), ps)"
| "member_call ar (Call_conditionalProbability a b) ps =
     (Returned_double (conditionalProbability ar ps a b), ps)"
| "member_call ar Call_getCurrentMode ps = (Returned_bool (getCurrentMode ps), ps)"
| "member_call ar (Call_setIgnoreUnknown mode) ps = (Returned_void, setIgnoreUnknown mode ps)"

text \<open>A sequence of calls on the same object, one after the other.\<close>

fun run_calls ::
  "'d arith \<Rightarrow> ('a::linorder, 'd) probability_space \<Rightarrow> 'a call list \<Rightarrow>
   ('a, 'd) probability_space" where
  "run_calls ar ps [] = ps"
| "run_calls ar ps (c # cs) = run_calls ar (snd (member_call ar c ps)) cs"

section \<open>Notions of the specification\<close>

text \<open>
  The sum of a sequence of doubles as both loops of the class compute it: from \<^verbatim>\<open>0.0\<close>,
  adding the terms from left to right.
\<close>

definition d_sum :: "'d arith \<Rightarrow> 'd list \<Rightarrow> 'd" where
  "d_sum ar vs = foldl (d_add ar) (d_zero ar) vs"

text \<open>The sample space of a mass function: its keys.\<close>

definition Omega :: "('a \<times> 'd) list \<Rightarrow> 'a set" where
  "Omega m = fst ` set m"

text \<open>
  The specification names three kinds of error. In the code each of them is a
  \<^verbatim>\<open>std::invalid_argument\<close> and its message tells the kind: two messages for an invalid
  distribution (negative mass, sum mismatch), one for an unknown outcome, one for a
  condition of mass zero.
\<close>

definition NegativeMass :: exn where
  "NegativeMass = invalid_argument ''Probabilities must be nonnegative''"

definition SumMismatch :: exn where
  "SumMismatch = invalid_argument ''Probabilities must sum to 1''"

definition UnknownOutcome :: exn where
  "UnknownOutcome = invalid_argument ''Event contains outcome not in sample space''"

definition ConditionOnZero :: exn where
  "ConditionOnZero =
     invalid_argument ''Tried to calculate conditional probability P(A|B) with B s.t. P(B)=0''"

datatype error_kind = InvalidDistribution_kind | UnknownOutcome_kind | ConditionOnZero_kind

text \<open>What a caller that catches the exception can tell from \<^verbatim>\<open>what()\<close>.\<close>

definition kind_of :: "exn \<Rightarrow> error_kind option" where
  "kind_of e =
     (if what e = ''Probabilities must be nonnegative'' \<or> what e = ''Probabilities must sum to 1''
      then Some InvalidDistribution_kind
      else if what e = ''Event contains outcome not in sample space''
      then Some UnknownOutcome_kind
      else if what e = ''Tried to calculate conditional probability P(A|B) with B s.t. P(B)=0''
      then Some ConditionOnZero_kind
      else None)"

text \<open>The flag most recently set by a sequence of calls, \<open>b\<close> if none of them sets it.\<close>

fun last_mode_set :: "'a call list \<Rightarrow> bool \<Rightarrow> bool" where
  "last_mode_set [] b = b"
| "last_mode_set (Call_setIgnoreUnknown mode # cs) b = last_mode_set cs mode"
| "last_mode_set (c # cs) b = last_mode_set cs b"

section \<open>Objects of the test program\<close>

text \<open>
  The fair die of \<^verbatim>\<open>test_probability_space.cpp\<close>: the mapping \<^verbatim>\<open>die\<close> and the
  object \<^verbatim>\<open>noppa\<close> constructed from it, with masses in the reals.
\<close>

definition die :: "(int \<times> real) list" where
  "die = [(1, 1/6), (2, 1/6), (3, 1/6), (4, 1/6), (5, 1/6), (6, 1/6)]"

definition noppa :: "(int, real) probability_space" where
  "noppa = \<lparr>space = die, events = [1, 2, 3, 4, 5, 6], ignoreUnknown = False\<rparr>"

text \<open>
  A space with an outcome of mass \<open>1 / 10 ^ 10\<close>, smaller than \<^verbatim>\<open>EPSILON\<close> and not zero.
\<close>

definition tiny :: "(int \<times> real) list" where
  "tiny = [(1, 1 / 10 ^ 10), (2, 1 - 1 / 10 ^ 10)]"

definition tiny_space :: "(int, real) probability_space" where
  "tiny_space = \<lparr>space = tiny, events = [1, 2], ignoreUnknown = False\<rparr>"

text \<open>
  A space whose only outcome has the mass \<open>1 + 1 / 2 ^ 31\<close>, a number that a double holds
  exactly; it is above one by less than \<^verbatim>\<open>EPSILON\<close>.
\<close>

definition heavy :: "(int \<times> real) list" where
  "heavy = [(1, 1 + 1 / 2 ^ 31)]"

definition heavy_space :: "(int, real) probability_space" where
  "heavy_space = \<lparr>space = heavy, events = [1], ignoreUnknown = False\<rparr>"

text \<open>
  The two mappings that the test program expects the constructor to reject, with the
  outcomes \<^verbatim>\<open>heads\<close> and \<^verbatim>\<open>tails\<close> numbered 1 and 2 and
  \<^verbatim>\<open>1.1/6.0\<close> written as \<open>11 / 60\<close>.
\<close>

definition negative_probability :: "(int \<times> real) list" where
  "negative_probability = [(1, - 1 / 10), (2, 11 / 10)]"

definition die_sum_neq_1 :: "(int \<times> real) list" where
  "die_sum_neq_1 = [(1, 1/6), (2, 1/6), (3, 11/60), (4, 1/6), (5, 1/6), (6, 11/60)]"

text \<open>
  A mapping with a mass that is NaN and the object the constructor makes of it, and the
  space of mass \<open>1 + 1 / 2 ^ 31\<close> again, in \<open>nan_arith\<close>.
\<close>

definition nan_mapping :: "(int \<times> num_or_nan) list" where
  "nan_mapping = [(1, NaN)]"

definition nan_space :: "(int, num_or_nan) probability_space" where
  "nan_space = \<lparr>space = nan_mapping, events = [1], ignoreUnknown = False\<rparr>"

definition heavy_num :: "(int \<times> num_or_nan) list" where
  "heavy_num = [(1, Num (1 + 1 / 2 ^ 31))]"

definition heavy_num_space :: "(int, num_or_nan) probability_space" where
  "heavy_num_space = \<lparr>space = heavy_num, events = [1], ignoreUnknown = False\<rparr>"

section \<open>The standard algorithms on strictly ascending lists\<close>

lemma set_set_insert: "set (set_insert x xs) = insert x (set xs)"
  by (induction xs) auto

lemma strict_sorted_set_insert:
  "sorted_wrt (<) xs \<Longrightarrow> sorted_wrt (<) (set_insert x xs)"
  by (induction xs) (auto simp: set_set_insert)

lemma set_insert_append:
  "\<forall>y\<in>set c. y < x \<Longrightarrow> set_insert x c = c @ [x]"
  by (induction c) auto

lemma std_inserter_append:
  "sorted_wrt (<) (c @ xs) \<Longrightarrow> std_inserter c xs = c @ xs"
proof (induction xs arbitrary: c)
  case Nil
  then show ?case by simp
next
  case (Cons x xs)
  from Cons.prems have lt: "\<forall>y\<in>set c. y < x"
    by (simp add: sorted_wrt_append)
  from Cons.prems have "sorted_wrt (<) ((c @ [x]) @ xs)" by simp
  then have "std_inserter (c @ [x]) xs = (c @ [x]) @ xs" by (rule Cons.IH)
  with lt show ?case by (simp add: set_insert_append)
qed

lemma std_inserter_strict_sorted:
  "sorted_wrt (<) xs \<Longrightarrow> std_inserter [] xs = xs"
  using std_inserter_append [of "[]" xs] by simp

lemma set_std_inserter: "set (std_inserter c xs) = set c \<union> set xs"
  by (induction xs arbitrary: c) (auto simp: set_set_insert)

lemma strict_sorted_std_inserter:
  "sorted_wrt (<) c \<Longrightarrow> sorted_wrt (<) (std_inserter c xs)"
  by (induction xs arbitrary: c) (auto simp: strict_sorted_set_insert)

lemma std_includes_subset:
  "sorted_wrt (<) xs \<Longrightarrow> sorted_wrt (<) ys \<Longrightarrow> std_includes xs ys \<longleftrightarrow> set ys \<subseteq> set xs"
proof (induction xs ys rule: std_includes.induct)
  case (1 xs)
  then show ?case by simp
next
  case (2 y ys)
  then show ?case by simp
next
  case (3 x xs y ys)
  from "3.prems" have sx: "sorted_wrt (<) xs" and sy: "sorted_wrt (<) ys"
    and xs_gt: "\<forall>z\<in>set xs. x < z" and ys_gt: "\<forall>z\<in>set ys. y < z"
    by simp_all
  consider (lt) "y < x" | (eq) "x = y" | (gt) "x < y"
    by (metis less_linear)
  then show ?case
  proof cases
    case lt
    with xs_gt have "y \<notin> set (x # xs)" by auto
    with lt show ?thesis by auto
  next
    case eq
    from eq "3.IH"(1) sx sy have ih: "std_includes xs ys \<longleftrightarrow> set ys \<subseteq> set xs"
      by simp
    from eq ys_gt have "x \<notin> set ys" by auto
    then have "set (y # ys) \<subseteq> set (x # xs) \<longleftrightarrow> set ys \<subseteq> set xs"
      using eq by auto
    with eq ih show ?thesis by simp
  next
    case gt
    from gt "3.IH"(2) sx "3.prems"(2)
    have ih: "std_includes xs (y # ys) \<longleftrightarrow> set (y # ys) \<subseteq> set xs"
      by simp
    from gt ys_gt have "x \<notin> set (y # ys)" by auto
    then have "set (y # ys) \<subseteq> set (x # xs) \<longleftrightarrow> set (y # ys) \<subseteq> set xs"
      by auto
    moreover from gt have "\<not> y < x" by (meson less_asym)
    ultimately show ?thesis using gt ih by simp
  qed
qed

lemma set_std_set_union: "set (std_set_union xs ys) = set xs \<union> set ys"
  by (induction xs ys rule: std_set_union.induct) auto

lemma strict_sorted_std_set_union:
  "sorted_wrt (<) xs \<Longrightarrow> sorted_wrt (<) ys \<Longrightarrow> sorted_wrt (<) (std_set_union xs ys)"
  by (induction xs ys rule: std_set_union.induct) (auto simp: set_std_set_union)

lemma set_std_set_intersection:
  "sorted_wrt (<) xs \<Longrightarrow> sorted_wrt (<) ys \<Longrightarrow>
   set (std_set_intersection xs ys) = set xs \<inter> set ys"
proof (induction xs ys rule: std_set_intersection.induct)
  case (1 ys)
  then show ?case by simp
next
  case (2 x xs)
  then show ?case by simp
next
  case (3 x xs y ys)
  from "3.prems" have sx: "sorted_wrt (<) xs" and sy: "sorted_wrt (<) ys"
    and xs_gt: "\<forall>z\<in>set xs. x < z" and ys_gt: "\<forall>z\<in>set ys. y < z"
    by simp_all
  consider (lt) "x < y" | (eq) "x = y" | (gt) "y < x"
    by (metis less_linear)
  then show ?case
  proof cases
    case lt
    with "3.IH"(1) sx "3.prems"(2)
    have ih: "set (std_set_intersection xs (y # ys)) = set xs \<inter> set (y # ys)"
      by simp
    from lt ys_gt have "x \<notin> set (y # ys)" by auto
    then have "set (x # xs) \<inter> set (y # ys) = set xs \<inter> set (y # ys)"
      by auto
    with lt ih show ?thesis by simp
  next
    case eq
    with "3.IH"(2) sx sy
    have ih: "set (std_set_intersection xs ys) = set xs \<inter> set ys"
      by simp
    from eq xs_gt ys_gt have "x \<notin> set ys" "y \<notin> set xs" by auto
    then have "set (x # xs) \<inter> set (y # ys) = insert x (set xs \<inter> set ys)"
      using eq by auto
    with eq ih show ?thesis by simp
  next
    case gt
    then have nlt: "\<not> x < y" by (meson less_asym)
    with gt "3.IH"(3) "3.prems"(1) sy
    have ih: "set (std_set_intersection (x # xs) ys) = set (x # xs) \<inter> set ys"
      by simp
    from gt xs_gt have "y \<notin> set (x # xs)" by auto
    then have "set (x # xs) \<inter> set (y # ys) = set (x # xs) \<inter> set ys"
      by auto
    with gt nlt ih show ?thesis by simp
  qed
qed

lemma strict_sorted_std_set_intersection:
  "sorted_wrt (<) xs \<Longrightarrow> sorted_wrt (<) ys \<Longrightarrow>
   sorted_wrt (<) (std_set_intersection xs ys)"
  by (induction xs ys rule: std_set_intersection.induct)
     (auto simp: set_std_set_intersection)

lemma std_set_union_commute:
  "sorted_wrt (<) xs \<Longrightarrow> sorted_wrt (<) ys \<Longrightarrow> std_set_union xs ys = std_set_union ys xs"
  by (intro strict_sorted_equal strict_sorted_std_set_union)
     (auto simp: set_std_set_union)

lemma std_set_intersection_commute:
  "sorted_wrt (<) xs \<Longrightarrow> sorted_wrt (<) ys \<Longrightarrow>
   std_set_intersection xs ys = std_set_intersection ys xs"
  by (intro strict_sorted_equal strict_sorted_std_set_intersection)
     (auto simp: set_std_set_intersection)

section \<open>The loops and the queries in closed form\<close>

lemma validProbabilitySpace_loop_eq:
  "validProbabilitySpace_loop ar m tot =
     (if \<exists>v\<in>snd ` set m. d_less ar v (d_zero ar) then Inl NegativeMass
      else Inr (foldl (d_add ar) tot (map snd m)))"
  by (induction ar m tot rule: validProbabilitySpace_loop.induct)
     (auto simp: NegativeMass_def)

lemma probabilityCalculator_loop_eq:
  "probabilityCalculator_loop ar ps e tot =
     (if \<not> ignoreUnknown ps \<and> \<not> set e \<subseteq> Omega (space ps) then Inl UnknownOutcome
      else Inr (foldl (d_add ar) tot (List.map_filter (map_of (space ps)) e)))"
proof (induction e arbitrary: tot)
  case Nil
  then show ?case by simp
next
  case (Cons outcome rest)
  show ?case
  proof (cases "map_of (space ps) outcome")
    case None
    then have "outcome \<notin> Omega (space ps)"
      by (simp add: Omega_def map_of_eq_None_iff)
    with None Cons.IH show ?thesis
      by (simp add: UnknownOutcome_def)
  next
    case (Some v)
    then have "outcome \<in> Omega (space ps)"
      by (metis Omega_def map_of_eq_None_iff option.distinct(1))
    with Some Cons.IH show ?thesis
      by simp
  qed
qed

lemma events_constructed:
  assumes "ProbabilitySpace ar m = Inr ps"
  shows "space ps = m" and "events ps = getKeys m" and "ignoreUnknown ps = False"
  using assms by (auto simp: ProbabilitySpace_def split: sum.splits)

lemma strict_sorted_getKeys: "sorted_wrt (<) (getKeys m)"
  by (simp add: getKeys_def strict_sorted_std_inserter)

lemma set_getKeys: "set (getKeys m) = Omega m"
  by (simp add: getKeys_def set_std_inserter Omega_def)

lemma getKeys_strict_sorted: "sorted_wrt (<) (map fst m) \<Longrightarrow> getKeys m = map fst m"
  by (simp add: getKeys_def std_inserter_strict_sorted)

lemma isSubset_eq:
  assumes "events ps = getKeys (space ps)" and "sorted_wrt (<) e"
  shows "isSubset ps e =
     (if \<not> ignoreUnknown ps \<and> \<not> set e \<subseteq> Omega (space ps) then Inl UnknownOutcome else Inr ())"
  using assms
  by (simp add: isSubset_def UnknownOutcome_def std_includes_subset strict_sorted_getKeys set_getKeys)

lemma probabilityCalculator_eq:
  assumes "events ps = getKeys (space ps)" and "sorted_wrt (<) e"
  shows "probabilityCalculator ar ps e =
     (if \<not> ignoreUnknown ps \<and> \<not> set e \<subseteq> Omega (space ps) then Inl UnknownOutcome
      else Inr (d_sum ar (List.map_filter (map_of (space ps)) e)))"
  using assms
  by (simp add: probabilityCalculator_def isSubset_eq probabilityCalculator_loop_eq d_sum_def)

lemma setIgnoreUnknown_simps:
  "space (setIgnoreUnknown b ps) = space ps"
  "events (setIgnoreUnknown b ps) = events ps"
  "ignoreUnknown (setIgnoreUnknown b ps) = b"
  by (simp_all add: setIgnoreUnknown_def)

lemma complement_eq:
  assumes "events ps = getKeys (space ps)" and "sorted_wrt (<) e"
  shows "complement ar ps e =
     (if \<not> ignoreUnknown ps \<and> \<not> set e \<subseteq> Omega (space ps) then Inl UnknownOutcome
      else Inr (d_sub ar (d_one ar) (d_sum ar (List.map_filter (map_of (space ps)) e))))"
  using assms by (simp add: complement_def probabilityCalculator_eq)

lemma unionEvents_eq:
  assumes "events ps = getKeys (space ps)" and "sorted_wrt (<) a" and "sorted_wrt (<) b"
  shows "unionEvents ar ps a b =
     (if \<not> ignoreUnknown ps \<and> \<not> (set a \<subseteq> Omega (space ps) \<and> set b \<subseteq> Omega (space ps))
      then Inl UnknownOutcome
      else Inr (d_sum ar (List.map_filter (map_of (space ps)) (std_set_union a b))))"
proof -
  have s: "sorted_wrt (<) (std_set_union a b)"
    using assms by (simp add: strict_sorted_std_set_union)
  then have "std_inserter [] (std_set_union a b) = std_set_union a b"
    by (rule std_inserter_strict_sorted)
  then show ?thesis
    using assms s
    by (simp add: unionEvents_def isSubset_eq probabilityCalculator_eq set_std_set_union)
qed

lemma intersectionEvents_eq:
  assumes "events ps = getKeys (space ps)" and "sorted_wrt (<) a" and "sorted_wrt (<) b"
  shows "intersectionEvents ar ps a b =
     (if \<not> ignoreUnknown ps \<and> \<not> (set a \<subseteq> Omega (space ps) \<and> set b \<subseteq> Omega (space ps))
      then Inl UnknownOutcome
      else Inr (d_sum ar (List.map_filter (map_of (space ps)) (std_set_intersection a b))))"
proof -
  have s: "sorted_wrt (<) (std_set_intersection a b)"
    using assms by (simp add: strict_sorted_std_set_intersection)
  then have i: "std_inserter [] (std_set_intersection a b) = std_set_intersection a b"
    by (rule std_inserter_strict_sorted)
  have sub: "set a \<subseteq> Omega (space ps) \<Longrightarrow> set (std_set_intersection a b) \<subseteq> Omega (space ps)"
    using assms by (auto simp: set_std_set_intersection)
  show ?thesis
    using assms s sub
    by (simp add: intersectionEvents_def isSubset_eq probabilityCalculator_eq i)
qed

lemma priv_conditionalProbability_eq:
  assumes "events ps = getKeys (space ps)" and "sorted_wrt (<) a" and "sorted_wrt (<) b"
  shows "priv_conditionalProbability ar ps a b =
     (if \<not> ignoreUnknown ps \<and> \<not> (set a \<subseteq> Omega (space ps) \<and> set b \<subseteq> Omega (space ps))
      then Inl UnknownOutcome
      else if d_eq ar (d_sum ar (List.map_filter (map_of (space ps)) b)) (d_zero ar)
      then Inl ConditionOnZero
      else Inr (d_div ar (d_sum ar (List.map_filter (map_of (space ps)) (std_set_intersection a b)))
                         (d_sum ar (List.map_filter (map_of (space ps)) b))))"
  using assms
  by (simp add: priv_conditionalProbability_def isSubset_eq probabilityCalculator_eq
      intersectionEvents_eq ConditionOnZero_def)

lemma constructed_wf:
  assumes "ProbabilitySpace ar m = Inr ps"
  shows "events (setIgnoreUnknown b ps) = getKeys (space (setIgnoreUnknown b ps))"
  using events_constructed [OF assms] by (simp add: setIgnoreUnknown_simps)

section \<open>More closed forms\<close>

lemma in_Omega_iff: "x \<in> Omega m \<longleftrightarrow> map_of m x \<noteq> None"
  by (simp add: Omega_def map_of_eq_None_iff)

lemma map_filter_known:
  "List.map_filter (map_of m) (filter (\<lambda>x. x \<in> Omega m) e) = List.map_filter (map_of m) e"
  by (induction e) (auto simp: in_Omega_iff)

lemma filter_std_set_union:
  assumes "sorted_wrt (<) a" and "sorted_wrt (<) b"
  shows "std_set_union (filter P a) (filter P b) = filter P (std_set_union a b)"
proof (rule strict_sorted_equal)
  show "sorted_wrt (<) (std_set_union (filter P a) (filter P b))"
    using assms by (simp add: strict_sorted_std_set_union sorted_wrt_filter)
  show "sorted_wrt (<) (filter P (std_set_union a b))"
    using assms by (simp add: strict_sorted_std_set_union sorted_wrt_filter)
  show "set (std_set_union (filter P a) (filter P b)) = set (filter P (std_set_union a b))"
    by (auto simp: set_std_set_union)
qed

lemma filter_std_set_intersection:
  assumes "sorted_wrt (<) a" and "sorted_wrt (<) b"
  shows "std_set_intersection (filter P a) (filter P b) = filter P (std_set_intersection a b)"
proof (rule strict_sorted_equal)
  show "sorted_wrt (<) (std_set_intersection (filter P a) (filter P b))"
    using assms by (simp add: strict_sorted_std_set_intersection sorted_wrt_filter)
  show "sorted_wrt (<) (filter P (std_set_intersection a b))"
    using assms by (simp add: strict_sorted_std_set_intersection sorted_wrt_filter)
  show "set (std_set_intersection (filter P a) (filter P b)) =
        set (filter P (std_set_intersection a b))"
    using assms by (auto simp: set_std_set_intersection sorted_wrt_filter)
qed

lemma exn_distinct:
  "UnknownOutcome \<noteq> ConditionOnZero" "ConditionOnZero \<noteq> UnknownOutcome"
  "NegativeMass \<noteq> SumMismatch" "NegativeMass \<noteq> UnknownOutcome" "NegativeMass \<noteq> ConditionOnZero"
  "SumMismatch \<noteq> UnknownOutcome" "SumMismatch \<noteq> ConditionOnZero"
  by (simp_all add: UnknownOutcome_def ConditionOnZero_def NegativeMass_def SumMismatch_def)

lemmas query_defs =
  probabilityOfSet_def complementOfEvent_def unionOfEvents_def intersectionOfEvents_def
  conditionalProbability_def

lemmas query_eqs =
  probabilityCalculator_eq complement_eq unionEvents_eq intersectionEvents_eq
  priv_conditionalProbability_eq

lemmas eval_defs =
  probabilityOfSet_def complementOfEvent_def unionOfEvents_def intersectionOfEvents_def
  conditionalProbability_def unionEvents_def intersectionEvents_def complement_def
  priv_conditionalProbability_def isSubset_def probabilityCalculator_def setIgnoreUnknown_def
  getCurrentMode_def ProbabilitySpace_def validProbabilitySpace_def getKeys_def EPSILON_def
  real_arith_def Omega_def d_sum_def
  UnknownOutcome_def ConditionOnZero_def NegativeMass_def SumMismatch_def

lemma map_filter_all_keys:
  assumes "distinct (map fst m)" and "set es \<subseteq> set m"
  shows "List.map_filter (map_of m) (map fst es) = map snd es"
  using assms(2)
proof (induction es)
  case Nil
  then show ?case by simp
next
  case (Cons kv es)
  obtain k v where kv: "kv = (k, v)" by (cases kv)
  with Cons.prems have "(k, v) \<in> set m" by simp
  with assms(1) have "map_of m k = Some v" by simp
  with Cons kv show ?case by simp
qed

lemma d_sum_real: "d_sum real_arith vs = sum_list vs"
proof -
  have "foldl (+) t vs = t + sum_list vs" for t :: real
    by (induction vs arbitrary: t) simp_all
  then show ?thesis by (simp add: d_sum_def real_arith_def)
qed

lemma known_masses_real:
  assumes "distinct e"
  shows "d_sum real_arith (List.map_filter (map_of m) e)
           = (\<Sum>x \<in> set e \<inter> Omega m. the (map_of m x))"
proof -
  have "set (filter (\<lambda>x. map_of m x \<noteq> None) e) = set e \<inter> Omega m"
    by (auto simp: in_Omega_iff)
  moreover have "distinct (filter (\<lambda>x. map_of m x \<noteq> None) e)"
    using assms by simp
  ultimately show ?thesis
    by (simp add: d_sum_real List.map_filter_def sum_list_distinct_conv_sum_set comp_def)
qed

lemma ProbabilitySpace_eq:
  "ProbabilitySpace ar m =
     (if \<exists>v\<in>snd ` set m. d_less ar v (d_zero ar) then Inl NegativeMass
      else if d_less ar (EPSILON ar) (d_abs ar (d_sub ar (d_sum ar (map snd m)) (d_one ar)))
      then Inl SumMismatch
      else Inr \<lparr>space = m, events = getKeys m, ignoreUnknown = False\<rparr>)"
  by (simp add: ProbabilitySpace_def validProbabilitySpace_def validProbabilitySpace_loop_eq
      d_sum_def SumMismatch_def)

lemma kind_of_simps:
  "kind_of NegativeMass = Some InvalidDistribution_kind"
  "kind_of SumMismatch = Some InvalidDistribution_kind"
  "kind_of UnknownOutcome = Some UnknownOutcome_kind"
  "kind_of ConditionOnZero = Some ConditionOnZero_kind"
  by (simp_all add: kind_of_def NegativeMass_def SumMismatch_def UnknownOutcome_def
      ConditionOnZero_def)

lemma ProbabilitySpace_real:
  "ProbabilitySpace real_arith m =
     (if \<exists>v\<in>snd ` set m. v < 0 then Inl NegativeMass
      else if \<bar>sum_list (map snd m) - 1\<bar> > 1 / 10 ^ 9 then Inl SumMismatch
      else Inr \<lparr>space = m, events = getKeys m, ignoreUnknown = False\<rparr>)"
  unfolding ProbabilitySpace_eq d_sum_real
  by (simp add: real_arith_def EPSILON_def)

lemma event_as_filter:
  fixes m :: "('a::linorder \<times> 'd) list"
  assumes "sorted_wrt (<) (map fst m)" and "sorted_wrt (<) e" and "set e \<subseteq> Omega m"
  shows "e = map fst (filter (\<lambda>kv. fst kv \<in> set e) m)"
proof (rule strict_sorted_equal)
  have "map fst (filter (\<lambda>kv. fst kv \<in> set e) m) = filter (\<lambda>k. k \<in> set e) (map fst m)"
    by (simp add: filter_map comp_def)
  then show "sorted_wrt (<) (map fst (filter (\<lambda>kv. fst kv \<in> set e) m))"
    using assms(1) by (simp add: sorted_wrt_filter)
  show "sorted_wrt (<) e" by (rule assms(2))
  show "set e = set (map fst (filter (\<lambda>kv. fst kv \<in> set e) m))"
    using assms(3) by (auto simp: Omega_def)
qed

lemma known_masses_as_filter:
  fixes m :: "('a::linorder \<times> 'd) list"
  assumes "sorted_wrt (<) (map fst m)" and "sorted_wrt (<) e" and "set e \<subseteq> Omega m"
  shows "List.map_filter (map_of m) e = map snd (filter (\<lambda>kv. fst kv \<in> set e) m)"
proof -
  from assms(1) have "distinct (map fst m)" by (simp add: strict_sorted_iff)
  then have "List.map_filter (map_of m) (map fst (filter (\<lambda>kv. fst kv \<in> set e) m))
               = map snd (filter (\<lambda>kv. fst kv \<in> set e) m)"
    by (rule map_filter_all_keys) auto
  with event_as_filter [OF assms] show ?thesis by simp
qed

lemma partial_sum_d_le:
  assumes rules: "ordered_addition ar"
    and nonneg: "\<forall>v\<in>snd ` set m. d_le ar (d_zero ar) v"
    and "d_le ar (d_zero ar) a" and "d_le ar a b"
  shows "d_le ar (d_zero ar) (foldl (d_add ar) a (map snd (filter P m))) \<and>
         d_le ar (foldl (d_add ar) a (map snd (filter P m))) (foldl (d_add ar) b (map snd m))"
  using nonneg \<open>d_le ar (d_zero ar) a\<close> \<open>d_le ar a b\<close>
proof (induction m arbitrary: a b)
  case Nil
  then show ?case by simp
next
  case (Cons kv m)
  from rules have trans: "\<And>x y z. d_le ar x y \<Longrightarrow> d_le ar y z \<Longrightarrow> d_le ar x z"
    and incr: "\<And>a c. d_le ar (d_zero ar) a \<Longrightarrow> d_le ar (d_zero ar) c \<Longrightarrow> d_le ar a (d_add ar a c)"
    and mono: "\<And>a b c. d_le ar (d_zero ar) a \<Longrightarrow> d_le ar a b \<Longrightarrow> d_le ar (d_zero ar) c \<Longrightarrow>
                 d_le ar (d_add ar a c) (d_add ar b c)"
    unfolding ordered_addition_def by blast+
  from Cons.prems(1) have v: "d_le ar (d_zero ar) (snd kv)"
    and rest: "\<forall>v\<in>snd ` set m. d_le ar (d_zero ar) v"
    by simp_all
  from Cons.prems(2,3) have b0: "d_le ar (d_zero ar) b" by (rule trans)
  show ?case
  proof (cases "P kv")
    case True
    from Cons.prems(2,3) v have "d_le ar (d_add ar a (snd kv)) (d_add ar b (snd kv))"
      by (rule mono)
    moreover from Cons.prems(2) v have "d_le ar a (d_add ar a (snd kv))" by (rule incr)
    with Cons.prems(2) have "d_le ar (d_zero ar) (d_add ar a (snd kv))" by (rule trans)
    ultimately show ?thesis using True Cons.IH [OF rest] by simp
  next
    case False
    from b0 v have "d_le ar b (d_add ar b (snd kv))" by (rule incr)
    with Cons.prems(3) have "d_le ar a (d_add ar b (snd kv))" by (rule trans)
    with False Cons.IH [OF rest Cons.prems(2)] show ?thesis by simp
  qed
qed

subsection \<open>The arithmetic with a NaN obeys the rules\<close>

lemma nan_arith_simps:
  "d_zero nan_arith = Num 0" "d_one nan_arith = Num 1" "EPSILON nan_arith = Num (1 / 10 ^ 9)"
  "d_add nan_arith = lift2 (+)" "d_sub nan_arith = lift2 (-)" "d_div nan_arith = quotient"
  "d_abs nan_arith = magnitude" "d_less nan_arith = compare2 (<)" "d_eq nan_arith = compare2 (=)"
  by (simp_all add: nan_arith_def EPSILON_def)

lemma isnan_nan_arith: "isnan nan_arith x \<longleftrightarrow> x = NaN"
  by (cases x) (simp_all add: isnan_def nan_arith_simps)

lemma nan_rules_nan_arith: "nan_rules nan_arith"
  unfolding nan_rules_def isnan_nan_arith
  by (auto simp: nan_arith_simps)

lemma d_le_nan_arith: "d_le nan_arith x y \<longleftrightarrow> compare2 (\<le>) x y"
  by (cases x; cases y) (auto simp: d_le_def nan_arith_simps)

lemma ordered_addition_nan_arith: "ordered_addition nan_arith"
proof -
  have 1: "\<not> isnan nan_arith x \<and> \<not> isnan nan_arith y \<and> \<not> d_less nan_arith x y \<longrightarrow> d_le nan_arith y x" for x y
    by (cases x; cases y) (auto simp: isnan_nan_arith d_le_nan_arith nan_arith_simps)
  have 2: "d_le nan_arith x y \<and> d_le nan_arith y z \<longrightarrow> d_le nan_arith x z" for x y z
    by (cases x; cases y; cases z) (auto simp: d_le_nan_arith)
  have 3: "\<not> isnan nan_arith (d_zero nan_arith)"
    by (simp add: isnan_nan_arith nan_arith_simps)
  have 4: "d_le nan_arith (d_zero nan_arith) a \<and> d_le nan_arith (d_zero nan_arith) c \<longrightarrow>
             d_le nan_arith a (d_add nan_arith a c)" for a c
    by (cases a; cases c) (auto simp: d_le_nan_arith nan_arith_simps)
  have 5: "d_le nan_arith (d_zero nan_arith) a \<and> d_le nan_arith a b \<and> d_le nan_arith (d_zero nan_arith) c \<longrightarrow>
             d_le nan_arith (d_add nan_arith a c) (d_add nan_arith b c)" for a b c
    by (cases a; cases b; cases c) (auto simp: d_le_nan_arith nan_arith_simps)
  from 1 2 3 4 5 show ?thesis unfolding ordered_addition_def by blast
qed

subsection \<open>A space with a mass that is NaN\<close>

lemma nan_space_constructed:
  assumes "nan_rules ar" and "isnan ar nan"
  shows "ProbabilitySpace ar [(k, nan)]
           = Inr \<lparr>space = [(k, nan)], events = [k], ignoreUnknown = False\<rparr>"
proof -
  from assms have 1: "\<not> d_less ar nan (d_zero ar)"
    unfolding nan_rules_def by blast
  from assms have "isnan ar (d_add ar (d_zero ar) nan)"
    unfolding nan_rules_def by blast
  with assms(1) have "isnan ar (d_sub ar (d_add ar (d_zero ar) nan) (d_one ar))"
    unfolding nan_rules_def by blast
  with assms(1) have "isnan ar (d_abs ar (d_sub ar (d_add ar (d_zero ar) nan) (d_one ar)))"
    unfolding nan_rules_def by blast
  with assms(1) have 2: "\<not> d_less ar (EPSILON ar)
      (d_abs ar (d_sub ar (d_add ar (d_zero ar) nan) (d_one ar)))"
    unfolding nan_rules_def by blast
  from 1 2 show ?thesis
    by (simp add: ProbabilitySpace_eq d_sum_def getKeys_def)
qed


subsection \<open>Which exception a member can raise\<close>

lemma isSubset_Inl: "isSubset ps e = Inl x \<Longrightarrow> x = UnknownOutcome"
  by (simp add: isSubset_def UnknownOutcome_def split: if_splits)

lemma probabilityCalculator_Inl: "probabilityCalculator ar ps e = Inl x \<Longrightarrow> x = UnknownOutcome"
  by (auto simp: probabilityCalculator_def probabilityCalculator_loop_eq
      dest: isSubset_Inl split: sum.splits if_splits)

lemma unionEvents_Inl: "unionEvents ar ps a b = Inl x \<Longrightarrow> x = UnknownOutcome"
  by (auto simp: unionEvents_def dest: isSubset_Inl probabilityCalculator_Inl split: sum.splits)

lemma intersectionEvents_Inl: "intersectionEvents ar ps a b = Inl x \<Longrightarrow> x = UnknownOutcome"
  by (auto simp: intersectionEvents_def dest: isSubset_Inl probabilityCalculator_Inl
      split: sum.splits)

lemma priv_conditionalProbability_Inl:
  "priv_conditionalProbability ar ps a b = Inl x \<Longrightarrow> x = UnknownOutcome \<or> x = ConditionOnZero"
  by (auto simp: priv_conditionalProbability_def ConditionOnZero_def
      dest: isSubset_Inl probabilityCalculator_Inl intersectionEvents_Inl
      split: sum.splits if_splits)

lemma run_calls_frame:
  "space (run_calls ar s cs) = space s \<and> events (run_calls ar s cs) = events s \<and>
   getCurrentMode (run_calls ar s cs) = last_mode_set cs (ignoreUnknown s)"
proof (induction cs arbitrary: s)
  case Nil
  then show ?case by (simp add: getCurrentMode_def)
next
  case (Cons c cs)
  show ?case by (cases c) (simp_all add: Cons.IH setIgnoreUnknown_simps)
qed

section \<open>Inclusion and exclusion with exact arithmetic\<close>

text \<open>
  With the arithmetic of the reals, where no addition rounds, the probability of a union
  is the sum of the two probabilities minus the probability of the intersection, for
  events inside the sample space and in either mode. How far the doubles that the code
  computes are from that is a matter of their rounding, which this development does not
  model.
\<close>

lemma inclusion_exclusion_real:
  fixes m :: "('a::linorder \<times> real) list"
  assumes "ProbabilitySpace real_arith m = Inr ps"
    and "sorted_wrt (<) a" and "sorted_wrt (<) b"
    and "set a \<subseteq> Omega m" and "set b \<subseteq> Omega m"
  shows "\<exists>u pa pb i.
           unionOfEvents real_arith (setIgnoreUnknown mode ps) a b = Inr u \<and>
           probabilityOfSet real_arith (setIgnoreUnknown mode ps) a = Inr pa \<and>
           probabilityOfSet real_arith (setIgnoreUnknown mode ps) b = Inr pb \<and>
           intersectionOfEvents real_arith (setIgnoreUnknown mode ps) a b = Inr i \<and>
           u = pa + pb - i"
proof -
  let ?f = "\<lambda>x. the (map_of m x)"
  note ev = events_constructed(2) [OF assms(1)]
  note sp = events_constructed(1) [OF assms(1)]
  have su: "sorted_wrt (<) (std_set_union a b)"
    using assms(2,3) by (rule strict_sorted_std_set_union)
  have si: "sorted_wrt (<) (std_set_intersection a b)"
    using assms(2,3) by (rule strict_sorted_std_set_intersection)
  have sum_of: "d_sum real_arith (List.map_filter (map_of m) e) = sum ?f (set e)"
    if "sorted_wrt (<) e" and "set e \<subseteq> Omega m" for e
  proof -
    from that(1) have "distinct e" by (simp add: strict_sorted_iff)
    moreover from that(2) have "set e \<inter> Omega m = set e" by auto
    ultimately show ?thesis using known_masses_real [of e m] by simp
  qed
  have u: "unionOfEvents real_arith (setIgnoreUnknown mode ps) a b = Inr (sum ?f (set a \<union> set b))"
    using assms(2-) sum_of [OF su]
    by (simp add: query_defs query_eqs ev sp setIgnoreUnknown_simps set_std_set_union)
  have i: "intersectionOfEvents real_arith (setIgnoreUnknown mode ps) a b
             = Inr (sum ?f (set a \<inter> set b))"
    using assms(2-) sum_of [OF si]
    by (simp add: query_defs query_eqs ev sp setIgnoreUnknown_simps set_std_set_intersection
        le_infI1)
  have pa: "probabilityOfSet real_arith (setIgnoreUnknown mode ps) a = Inr (sum ?f (set a))"
    using assms(2-) sum_of [OF assms(2)]
    by (simp add: query_defs query_eqs ev sp setIgnoreUnknown_simps)
  have pb: "probabilityOfSet real_arith (setIgnoreUnknown mode ps) b = Inr (sum ?f (set b))"
    using assms(2-) sum_of [OF assms(3)]
    by (simp add: query_defs query_eqs ev sp setIgnoreUnknown_simps)
  have "sum ?f (set a \<union> set b) + sum ?f (set a \<inter> set b) = sum ?f (set a) + sum ?f (set b)"
    by (rule sum.union_inter) simp_all
  then have "sum ?f (set a \<union> set b) = sum ?f (set a) + sum ?f (set b) - sum ?f (set a \<inter> set b)"
    by linarith
  with u i pa pb show ?thesis by simp
qed

section \<open>The test objects evaluated\<close>

lemma noppa_constructed: "ProbabilitySpace real_arith die = Inr noppa"
  by (simp add: ProbabilitySpace_def validProbabilitySpace_def real_arith_def EPSILON_def
      die_def noppa_def getKeys_def)

lemma tiny_constructed: "ProbabilitySpace real_arith tiny = Inr tiny_space"
  by (simp add: eval_defs tiny_def tiny_space_def)

lemma heavy_constructed: "ProbabilitySpace real_arith heavy = Inr heavy_space"
  by (simp add: eval_defs heavy_def heavy_space_def)

lemma heavy_num_constructed: "ProbabilitySpace nan_arith heavy_num = Inr heavy_num_space"
  by (simp add: ProbabilitySpace_eq d_sum_def getKeys_def heavy_num_def heavy_num_space_def
      nan_arith_simps)

lemma negative_probability_rejected:
  "ProbabilitySpace real_arith negative_probability = Inl NegativeMass"
  by (simp add: ProbabilitySpace_real negative_probability_def)

lemma die_sum_neq_1_rejected:
  "ProbabilitySpace real_arith die_sum_neq_1 = Inl SumMismatch"
  by (simp add: ProbabilitySpace_real die_sum_neq_1_def)

section \<open>The claims\<close>

text \<open>
  C1. For a space constructed from the mass function \<open>m\<close>, in either mode, a successful
  \<open>probabilityOfSet(e)\<close> returns the sum of the masses of the outcomes of \<open>e\<close> that are
  keys of \<open>m\<close>, added in ascending order of the outcomes from \<^verbatim>\<open>0.0\<close>; outcomes that
  are no keys contribute nothing. In permissive mode the query always succeeds with that
  sum. The empty event has probability \<^verbatim>\<open>0.0\<close>, and the probability of the whole
  sample space is the total that the validation computed, the same double.
  For the reals the sum is \<open>\<Sum>x \<in> set e \<inter> Omega m. the (map_of m x)\<close>, by
  \<open>known_masses_real\<close>.
\<close>

theorem C1_probability_is_sum:
  assumes "ProbabilitySpace ar m = Inr ps" and "sorted_wrt (<) (map fst m)"
  shows
    "(\<forall>p. probabilityOfSet ar (setIgnoreUnknown mode ps) e = Inr p \<longrightarrow>
        p = d_sum ar (List.map_filter (map_of m) e)) \<and>
     probabilityOfSet ar (setIgnoreUnknown True ps) e
        = Inr (d_sum ar (List.map_filter (map_of m) e)) \<and>
     probabilityOfSet ar (setIgnoreUnknown mode ps) [] = Inr (d_zero ar) \<and>
     events ps = map fst m \<and>
     probabilityOfSet ar (setIgnoreUnknown mode ps) (events ps) = Inr (d_sum ar (map snd m)) \<and>
     validProbabilitySpace_loop ar m (d_zero ar) = Inr (d_sum ar (map snd m))"
proof -
  note ev = events_constructed(2) [OF assms(1)]
  note sp = events_constructed(1) [OF assms(1)]
  have keys: "events ps = map fst m"
    using assms(2) by (simp add: ev getKeys_strict_sorted)
  have 1: "\<forall>p. probabilityOfSet ar (setIgnoreUnknown mode ps) e = Inr p \<longrightarrow>
        p = d_sum ar (List.map_filter (map_of m) e)"
    by (auto simp: probabilityOfSet_def probabilityCalculator_def probabilityCalculator_loop_eq
        setIgnoreUnknown_simps sp d_sum_def split: sum.splits if_splits)
  have 2: "probabilityOfSet ar (setIgnoreUnknown True ps) e
        = Inr (d_sum ar (List.map_filter (map_of m) e))"
    by (simp add: probabilityOfSet_def probabilityCalculator_def probabilityCalculator_loop_eq
        isSubset_def setIgnoreUnknown_simps sp d_sum_def)
  have 3: "probabilityOfSet ar (setIgnoreUnknown mode ps) [] = Inr (d_zero ar)"
    by (simp add: probabilityOfSet_def probabilityCalculator_def isSubset_def)
  have "distinct (map fst m)"
    using assms(2) by (simp add: strict_sorted_iff)
  then have all: "List.map_filter (map_of m) (map fst m) = map snd m"
    by (rule map_filter_all_keys) simp
  have "sorted_wrt (<) (events ps)" by (simp add: ev strict_sorted_getKeys)
  then have 4: "probabilityOfSet ar (setIgnoreUnknown mode ps) (events ps)
        = Inr (d_sum ar (map snd m))"
    using all by (simp add: probabilityOfSet_def probabilityCalculator_eq
        setIgnoreUnknown_simps sp ev set_getKeys flip: keys)
  from assms(1) have "\<exists>t. validProbabilitySpace_loop ar m (d_zero ar) = Inr t"
    by (auto simp: ProbabilitySpace_def validProbabilitySpace_def split: sum.splits)
  then have 5: "validProbabilitySpace_loop ar m (d_zero ar) = Inr (d_sum ar (map snd m))"
    by (auto simp: validProbabilitySpace_loop_eq d_sum_def split: if_splits)
  from 1 2 3 keys 4 5 show ?thesis by blast
qed

theorem C1_probability_is_sum_witness:
  "ProbabilitySpace real_arith die = Inr noppa \<and> sorted_wrt (<) (map fst die) \<and>
   probabilityOfSet real_arith (setIgnoreUnknown False noppa) [1, 2] = Inr (2 / 6) \<and>
   d_sum real_arith (List.map_filter (map_of die) [1, 2]) = 2 / 6 \<and>
   probabilityOfSet real_arith (setIgnoreUnknown True noppa) [1, 2, 7] = Inr (2 / 6) \<and>
   probabilityOfSet real_arith (setIgnoreUnknown False noppa) [] = Inr 0 \<and>
   probabilityOfSet real_arith (setIgnoreUnknown False noppa) [1, 2, 3, 4, 5, 6] = Inr 1"
proof -
  have s: "sorted_wrt (<) (map fst die)" by (simp add: die_def)
  have v: "probabilityOfSet real_arith (setIgnoreUnknown False noppa) [1, 2] = Inr (2 / 6)"
    by (simp add: eval_defs noppa_def die_def del: not_None_eq)
  have d: "d_sum real_arith (List.map_filter (map_of die) [1, 2, 7]) = 2 / 6"
    "d_sum real_arith (map snd die) = 1" "d_zero real_arith = 0" "map fst die = [1, 2, 3, 4, 5, 6]"
    by (simp_all add: d_sum_def real_arith_def die_def)
  from C1_probability_is_sum [OF noppa_constructed s, of False "[1, 2]"]
    C1_probability_is_sum [OF noppa_constructed s, of False "[1, 2, 7]"]
    v d s noppa_constructed
  show ?thesis by simp
qed

text \<open>
  C2. The claim does not hold of the code for a mass that is NaN. In every arithmetic
  that obeys the rules of IEEE 754 on NaN, the constructor accepts the mapping whose only
  entry has a NaN as its mass, although that entry is not \<^verbatim>\<open>>= 0.0\<close> and the total
  \<open>S\<close> is not within \<^verbatim>\<open>EPSILON\<close> of one: neither \<^verbatim>\<open>0.0 <= NaN\<close> nor
  \<^verbatim>\<open>abs(S - 1.0) <= EPSILON\<close> holds. Both tests of the validation are written as the
  comparisons that raise, \<^verbatim>\<open>v < 0.0\<close> and \<^verbatim>\<open>abs(total - 1.0) > EPSILON\<close>, and both
  are false on a NaN. For every mapping the outcome of the constructor is given by
  \<open>ProbabilitySpace_eq\<close>.
\<close>

theorem C2_nan_accepted:
  assumes "nan_rules ar" and "isnan ar nan"
  shows "ProbabilitySpace ar [(k, nan)]
           = Inr \<lparr>space = [(k, nan)], events = [k], ignoreUnknown = False\<rparr> \<and>
         \<not> d_le ar (d_zero ar) nan \<and>
         \<not> d_le ar (d_abs ar (d_sub ar (d_sum ar [nan]) (d_one ar))) (EPSILON ar)"
proof -
  from assms have 1: "\<not> d_le ar (d_zero ar) nan"
    unfolding nan_rules_def d_le_def by blast
  from assms have "isnan ar (d_add ar (d_zero ar) nan)"
    unfolding nan_rules_def by blast
  with assms(1) have "isnan ar (d_sub ar (d_add ar (d_zero ar) nan) (d_one ar))"
    unfolding nan_rules_def by blast
  with assms(1) have "isnan ar (d_abs ar (d_sub ar (d_add ar (d_zero ar) nan) (d_one ar)))"
    unfolding nan_rules_def by blast
  with assms(1) have 2: "\<not> d_le ar (d_abs ar (d_sub ar (d_sum ar [nan]) (d_one ar))) (EPSILON ar)"
    unfolding nan_rules_def d_le_def d_sum_def by auto
  from nan_space_constructed [OF assms] 1 2 show ?thesis by blast
qed

theorem C2_nan_accepted_witness:
  "nan_rules nan_arith \<and> isnan nan_arith NaN \<and>
   ProbabilitySpace nan_arith nan_mapping = Inr nan_space \<and>
   \<not> d_le nan_arith (Num 0) NaN \<and>
   d_sum nan_arith [NaN] = NaN"
proof -
  have n: "isnan nan_arith NaN" by (simp add: isnan_nan_arith)
  have s: "d_sum nan_arith [NaN] = NaN" by (simp add: d_sum_def nan_arith_simps)
  from C2_nan_accepted [OF nan_rules_nan_arith n, of 1] nan_rules_nan_arith n s
  show ?thesis by (auto simp: nan_mapping_def nan_space_def nan_arith_simps)
qed

text \<open>
  C3. On a constructed space, each of the five queries fails with the unknown-outcome
  exception exactly when the mode is strict (\<open>mode = False\<close>) and one of its event arguments
  has an outcome outside the sample space; in permissive mode (\<open>mode = True\<close>) none of
  them ever does, and the result is the one for the events with their foreign outcomes
  removed.
\<close>

theorem C3_unknown_outcome:
  assumes "ProbabilitySpace ar m = Inr ps" and "sorted_wrt (<) a" and "sorted_wrt (<) b"
  shows
    "((probabilityOfSet ar (setIgnoreUnknown mode ps) a = Inl UnknownOutcome)
        = (\<not> mode \<and> \<not> set a \<subseteq> Omega m)) \<and>
     ((complementOfEvent ar (setIgnoreUnknown mode ps) a = Inl UnknownOutcome)
        = (\<not> mode \<and> \<not> set a \<subseteq> Omega m)) \<and>
     ((unionOfEvents ar (setIgnoreUnknown mode ps) a b = Inl UnknownOutcome)
        = (\<not> mode \<and> \<not> (set a \<subseteq> Omega m \<and> set b \<subseteq> Omega m))) \<and>
     ((intersectionOfEvents ar (setIgnoreUnknown mode ps) a b = Inl UnknownOutcome)
        = (\<not> mode \<and> \<not> (set a \<subseteq> Omega m \<and> set b \<subseteq> Omega m))) \<and>
     ((conditionalProbability ar (setIgnoreUnknown mode ps) a b = Inl UnknownOutcome)
        = (\<not> mode \<and> \<not> (set a \<subseteq> Omega m \<and> set b \<subseteq> Omega m))) \<and>
     probabilityOfSet ar (setIgnoreUnknown True ps) a
        = probabilityOfSet ar (setIgnoreUnknown True ps) (filter (\<lambda>x. x \<in> Omega m) a) \<and>
     complementOfEvent ar (setIgnoreUnknown True ps) a
        = complementOfEvent ar (setIgnoreUnknown True ps) (filter (\<lambda>x. x \<in> Omega m) a) \<and>
     unionOfEvents ar (setIgnoreUnknown True ps) a b
        = unionOfEvents ar (setIgnoreUnknown True ps)
            (filter (\<lambda>x. x \<in> Omega m) a) (filter (\<lambda>x. x \<in> Omega m) b) \<and>
     intersectionOfEvents ar (setIgnoreUnknown True ps) a b
        = intersectionOfEvents ar (setIgnoreUnknown True ps)
            (filter (\<lambda>x. x \<in> Omega m) a) (filter (\<lambda>x. x \<in> Omega m) b) \<and>
     conditionalProbability ar (setIgnoreUnknown True ps) a b
        = conditionalProbability ar (setIgnoreUnknown True ps)
            (filter (\<lambda>x. x \<in> Omega m) a) (filter (\<lambda>x. x \<in> Omega m) b)"
proof -
  note wf = events_constructed(2) [OF assms(1)]
  note sp = events_constructed(1) [OF assms(1)]
  let ?F = "filter (\<lambda>x. x \<in> Omega m)"
  have fa: "sorted_wrt (<) (?F a)" and fb: "sorted_wrt (<) (?F b)"
    using assms by (simp_all add: sorted_wrt_filter)
  have mfa: "List.map_filter (map_of m) (?F a) = List.map_filter (map_of m) a"
    and mfb: "List.map_filter (map_of m) (?F b) = List.map_filter (map_of m) b"
    by (rule map_filter_known)+
  have mfu: "List.map_filter (map_of m) (std_set_union (?F a) (?F b))
              = List.map_filter (map_of m) (std_set_union a b)"
    using assms by (simp add: filter_std_set_union map_filter_known)
  have mfi: "List.map_filter (map_of m) (std_set_intersection (?F a) (?F b))
              = List.map_filter (map_of m) (std_set_intersection a b)"
    using assms by (simp add: filter_std_set_intersection map_filter_known)
  have 1: "(probabilityOfSet ar (setIgnoreUnknown mode ps) a = Inl UnknownOutcome)
        = (\<not> mode \<and> \<not> set a \<subseteq> Omega m)"
    using assms by (simp add: query_defs query_eqs wf sp setIgnoreUnknown_simps)
  have 2: "(complementOfEvent ar (setIgnoreUnknown mode ps) a = Inl UnknownOutcome)
        = (\<not> mode \<and> \<not> set a \<subseteq> Omega m)"
    using assms by (simp add: query_defs query_eqs wf sp setIgnoreUnknown_simps)
  have 3: "(unionOfEvents ar (setIgnoreUnknown mode ps) a b = Inl UnknownOutcome)
        = (\<not> mode \<and> \<not> (set a \<subseteq> Omega m \<and> set b \<subseteq> Omega m))"
    using assms by (simp add: query_defs query_eqs wf sp setIgnoreUnknown_simps)
  have 4: "(intersectionOfEvents ar (setIgnoreUnknown mode ps) a b = Inl UnknownOutcome)
        = (\<not> mode \<and> \<not> (set a \<subseteq> Omega m \<and> set b \<subseteq> Omega m))"
    using assms by (simp add: query_defs query_eqs wf sp setIgnoreUnknown_simps)
  have 5: "(conditionalProbability ar (setIgnoreUnknown mode ps) a b = Inl UnknownOutcome)
        = (\<not> mode \<and> \<not> (set a \<subseteq> Omega m \<and> set b \<subseteq> Omega m))"
    using assms by (simp add: query_defs query_eqs wf sp setIgnoreUnknown_simps exn_distinct)
  have 6: "probabilityOfSet ar (setIgnoreUnknown True ps) a
        = probabilityOfSet ar (setIgnoreUnknown True ps) (?F a)"
    using assms fa by (simp add: query_defs query_eqs wf sp setIgnoreUnknown_simps mfa)
  have 7: "complementOfEvent ar (setIgnoreUnknown True ps) a
        = complementOfEvent ar (setIgnoreUnknown True ps) (?F a)"
    using assms fa by (simp add: query_defs query_eqs wf sp setIgnoreUnknown_simps mfa)
  have 8: "unionOfEvents ar (setIgnoreUnknown True ps) a b
        = unionOfEvents ar (setIgnoreUnknown True ps) (?F a) (?F b)"
    using assms fa fb by (simp add: query_defs query_eqs wf sp setIgnoreUnknown_simps mfu)
  have 9: "intersectionOfEvents ar (setIgnoreUnknown True ps) a b
        = intersectionOfEvents ar (setIgnoreUnknown True ps) (?F a) (?F b)"
    using assms fa fb by (simp add: query_defs query_eqs wf sp setIgnoreUnknown_simps mfi)
  have 10: "conditionalProbability ar (setIgnoreUnknown True ps) a b
        = conditionalProbability ar (setIgnoreUnknown True ps) (?F a) (?F b)"
    using assms fa fb by (simp add: query_defs query_eqs wf sp setIgnoreUnknown_simps mfi mfb)
  from 1 2 3 4 5 6 7 8 9 10 show ?thesis by blast
qed

theorem C3_unknown_outcome_witness:
  "ProbabilitySpace real_arith die = Inr noppa \<and>
   sorted_wrt (<) [4, 5 :: int] \<and> sorted_wrt (<) [4, 5, 6, 7 :: int] \<and>
   conditionalProbability real_arith (setIgnoreUnknown False noppa) [4, 5] [4, 5, 6, 7]
     = Inl UnknownOutcome \<and>
   conditionalProbability real_arith (setIgnoreUnknown True noppa) [4, 5] [4, 5, 6, 7]
     = conditionalProbability real_arith (setIgnoreUnknown True noppa) [4, 5] [4, 5, 6] \<and>
   conditionalProbability real_arith (setIgnoreUnknown True noppa) [4, 5] [4, 5, 6]
     = Inr (2 / 3)"
proof -
  have a: "sorted_wrt (<) [4, 5 :: int]" and b: "sorted_wrt (<) [4, 5, 6, 7 :: int]"
    by simp_all
  have om: "filter (\<lambda>x. x \<in> Omega die) [4, 5] = [4, 5]"
    "filter (\<lambda>x. x \<in> Omega die) [4, 5, 6, 7] = [4, 5, 6]"
    "\<not> set [4, 5, 6, 7] \<subseteq> Omega die"
    by (simp_all add: Omega_def die_def)
  have v: "conditionalProbability real_arith (setIgnoreUnknown True noppa) [4, 5] [4, 5, 6]
     = Inr (2 / 3)"
    by (simp add: eval_defs noppa_def die_def del: not_None_eq)
  from C3_unknown_outcome [OF noppa_constructed a b, of False]
    C3_unknown_outcome [OF noppa_constructed a b, of True] om v a b noppa_constructed
  show ?thesis by simp
qed

text \<open>
  C4. \<open>conditionalProbability(a, b)\<close> on a constructed space: in strict mode an outcome of
  \<open>a\<close> or of \<open>b\<close> outside the sample space gives the unknown-outcome exception, whatever
  the mass of \<open>b\<close>. Otherwise \<open>P(b)\<close> and \<open>P(a \<inter> b)\<close> are computed without failure, and
  the result is the condition-on-zero exception if \<^verbatim>\<open>P(b) == 0\<close>, and else the quotient
  \<open>P(a \<inter> b) / P(b)\<close>: the test is the equality of doubles, with no tolerance. The empty
  event and, in permissive mode, an event of foreign outcomes only are conditions of mass
  zero (given that \<^verbatim>\<open>0.0 == 0.0\<close> holds in the arithmetic).
\<close>

theorem C4_conditional:
  assumes "ProbabilitySpace ar m = Inr ps" and "sorted_wrt (<) a" and "sorted_wrt (<) b"
    and "d_eq ar (d_zero ar) (d_zero ar)"
  shows
    "(\<not> mode \<and> \<not> (set a \<subseteq> Omega m \<and> set b \<subseteq> Omega m) \<longrightarrow>
        conditionalProbability ar (setIgnoreUnknown mode ps) a b = Inl UnknownOutcome) \<and>
     (mode \<or> (set a \<subseteq> Omega m \<and> set b \<subseteq> Omega m) \<longrightarrow>
        (\<exists>pB pAB.
           probabilityOfSet ar (setIgnoreUnknown mode ps) b = Inr pB \<and>
           intersectionOfEvents ar (setIgnoreUnknown mode ps) a b = Inr pAB \<and>
           conditionalProbability ar (setIgnoreUnknown mode ps) a b =
             (if d_eq ar pB (d_zero ar) then Inl ConditionOnZero
              else Inr (d_div ar pAB pB)))) \<and>
     (mode \<or> set a \<subseteq> Omega m \<longrightarrow>
        conditionalProbability ar (setIgnoreUnknown mode ps) a [] = Inl ConditionOnZero) \<and>
     (set b \<inter> Omega m = {} \<longrightarrow>
        conditionalProbability ar (setIgnoreUnknown True ps) a b = Inl ConditionOnZero)"
proof -
  note ev = events_constructed(2) [OF assms(1)]
  note sp = events_constructed(1) [OF assms(1)]
  have 1: "\<not> mode \<and> \<not> (set a \<subseteq> Omega m \<and> set b \<subseteq> Omega m) \<longrightarrow>
        conditionalProbability ar (setIgnoreUnknown mode ps) a b = Inl UnknownOutcome"
    using assms(2,3) by (simp add: query_defs query_eqs ev sp setIgnoreUnknown_simps)
  have 2: "mode \<or> (set a \<subseteq> Omega m \<and> set b \<subseteq> Omega m) \<longrightarrow>
        (\<exists>pB pAB.
           probabilityOfSet ar (setIgnoreUnknown mode ps) b = Inr pB \<and>
           intersectionOfEvents ar (setIgnoreUnknown mode ps) a b = Inr pAB \<and>
           conditionalProbability ar (setIgnoreUnknown mode ps) a b =
             (if d_eq ar pB (d_zero ar) then Inl ConditionOnZero
              else Inr (d_div ar pAB pB)))"
    using assms(2,3) by (auto simp: query_defs query_eqs ev sp setIgnoreUnknown_simps)
  have 3: "mode \<or> set a \<subseteq> Omega m \<longrightarrow>
        conditionalProbability ar (setIgnoreUnknown mode ps) a [] = Inl ConditionOnZero"
    using assms(2,4) by (auto simp: query_defs query_eqs ev sp setIgnoreUnknown_simps d_sum_def)
  have "List.map_filter (map_of m) b = []" if "set b \<inter> Omega m = {}"
    using that by (induction b) (auto simp: in_Omega_iff)
  then have 4: "set b \<inter> Omega m = {} \<longrightarrow>
        conditionalProbability ar (setIgnoreUnknown True ps) a b = Inl ConditionOnZero"
    using assms(2,3,4) by (simp add: query_defs query_eqs ev sp setIgnoreUnknown_simps d_sum_def)
  from 1 2 3 4 show ?thesis by blast
qed

theorem C4_conditional_witness:
  "ProbabilitySpace real_arith tiny = Inr tiny_space \<and>
   sorted_wrt (<) [1, 2 :: int] \<and> sorted_wrt (<) [1 :: int] \<and>
   d_eq real_arith (d_zero real_arith) (d_zero real_arith) \<and>
   set [1, 2] \<subseteq> Omega tiny \<and> set [1] \<subseteq> Omega tiny \<and>
   probabilityOfSet real_arith (setIgnoreUnknown False tiny_space) [1] = Inr (1 / 10 ^ 10) \<and>
   intersectionOfEvents real_arith (setIgnoreUnknown False tiny_space) [1, 2] [1]
     = Inr (1 / 10 ^ 10) \<and>
   conditionalProbability real_arith (setIgnoreUnknown False tiny_space) [1, 2] [1] = Inr 1 \<and>
   conditionalProbability real_arith (setIgnoreUnknown False tiny_space) [1, 2] []
     = Inl ConditionOnZero \<and>
   conditionalProbability real_arith (setIgnoreUnknown True tiny_space) [1, 2] [7]
     = Inl ConditionOnZero \<and>
   conditionalProbability real_arith (setIgnoreUnknown False tiny_space) [1, 2] [7]
     = Inl UnknownOutcome"
proof -
  have a: "sorted_wrt (<) [1, 2 :: int]" and b: "sorted_wrt (<) [1 :: int]"
    and e: "sorted_wrt (<) ([] :: int list)" and f: "sorted_wrt (<) [7 :: int]"
    by simp_all
  have z: "d_eq real_arith (d_zero real_arith) (d_zero real_arith)"
    by (simp add: real_arith_def)
  have om: "set [1, 2] \<subseteq> Omega tiny" "set [1] \<subseteq> Omega tiny" "set [7] \<inter> Omega tiny = {}"
    "\<not> set [7] \<subseteq> Omega tiny"
    by (simp_all add: Omega_def tiny_def)
  have v: "probabilityOfSet real_arith (setIgnoreUnknown False tiny_space) [1] = Inr (1 / 10 ^ 10)"
    "intersectionOfEvents real_arith (setIgnoreUnknown False tiny_space) [1, 2] [1]
       = Inr (1 / 10 ^ 10)"
    by (simp_all add: eval_defs tiny_space_def tiny_def del: not_None_eq)
  note strict = C4_conditional [OF tiny_constructed a b z, of False]
  from strict om obtain pB pAB where
    p: "probabilityOfSet real_arith (setIgnoreUnknown False tiny_space) [1] = Inr pB"
    and q: "intersectionOfEvents real_arith (setIgnoreUnknown False tiny_space) [1, 2] [1] = Inr pAB"
    and c: "conditionalProbability real_arith (setIgnoreUnknown False tiny_space) [1, 2] [1] =
             (if d_eq real_arith pB (d_zero real_arith) then Inl ConditionOnZero
              else Inr (d_div real_arith pAB pB))"
    by blast
  from p v(1) have pB: "pB = 1 / 10 ^ 10" by (metis sum.inject(2))
  from q v(2) have pAB: "pAB = 1 / 10 ^ 10" by (metis sum.inject(2))
  have succeeds: "conditionalProbability real_arith (setIgnoreUnknown False tiny_space) [1, 2] [1]
      = Inr 1"
    unfolding c pB pAB by (simp add: real_arith_def)
  from C4_conditional [OF tiny_constructed a f z, of False]
    C4_conditional [OF tiny_constructed a f z, of True]
    om v succeeds a b z tiny_constructed
  show ?thesis by simp
qed

text \<open>
  C5, as amended. For a constructed space none of whose masses is NaN and an event
  inside its sample space, \<open>probabilityOfSet\<close> succeeds in either mode with a result \<open>p\<close>
  such that \<^verbatim>\<open>0.0 <= p\<close> and \<^verbatim>\<open>p <= S\<close>, where \<open>S\<close> is the total mass that the
  validation computed; \<open>S\<close> passed the test of the validation, so it is not farther
  from one than \<^verbatim>\<open>EPSILON\<close>, and it may be above one. This holds in every arithmetic
  that obeys the rules \<open>ordered_addition\<close> of IEEE 754 on order and rounded addition.
\<close>

theorem C5_probability_bounds:
  fixes m :: "('a::linorder \<times> 'd) list"
  assumes "ProbabilitySpace ar m = Inr ps" and "sorted_wrt (<) (map fst m)"
    and "sorted_wrt (<) e" and "set e \<subseteq> Omega m"
    and "ordered_addition ar"
    and "\<forall>v\<in>snd ` set m. \<not> isnan ar v"
  shows "\<exists>p. probabilityOfSet ar (setIgnoreUnknown mode ps) e = Inr p \<and>
             d_le ar (d_zero ar) p \<and> d_le ar p (d_sum ar (map snd m)) \<and>
             \<not> d_less ar (EPSILON ar) (d_abs ar (d_sub ar (d_sum ar (map snd m)) (d_one ar)))"
proof -
  note ev = events_constructed(2) [OF assms(1)]
  note sp = events_constructed(1) [OF assms(1)]
  let ?p = "d_sum ar (List.map_filter (map_of m) e)"
  have p: "probabilityOfSet ar (setIgnoreUnknown mode ps) e = Inr ?p"
    using assms(3,4)
    by (simp add: probabilityOfSet_def probabilityCalculator_eq ev sp setIgnoreUnknown_simps)
  from assms(1) have ok: "\<not> (\<exists>v\<in>snd ` set m. d_less ar v (d_zero ar))"
    "\<not> d_less ar (EPSILON ar) (d_abs ar (d_sub ar (d_sum ar (map snd m)) (d_one ar)))"
    by (auto simp: ProbabilitySpace_eq split: if_splits)
  from assms(5) have total: "\<And>x y. \<not> isnan ar x \<Longrightarrow> \<not> isnan ar y \<Longrightarrow> \<not> d_less ar x y \<Longrightarrow> d_le ar y x"
    and zero: "\<not> isnan ar (d_zero ar)"
    unfolding ordered_addition_def by blast+
  have nonneg: "\<forall>v\<in>snd ` set m. d_le ar (d_zero ar) v"
  proof
    fix v assume v: "v \<in> snd ` set m"
    with assms(6) have "\<not> isnan ar v" by blast
    moreover from ok(1) v have "\<not> d_less ar v (d_zero ar)" by blast
    ultimately show "d_le ar (d_zero ar) v" using zero by (intro total)
  qed
  from zero have z: "d_le ar (d_zero ar) (d_zero ar)"
    by (simp add: isnan_def d_le_def)
  have "d_le ar (d_zero ar) ?p \<and> d_le ar ?p (d_sum ar (map snd m))"
    unfolding known_masses_as_filter [OF assms(2,3,4)] d_sum_def
    by (rule partial_sum_d_le [OF assms(5) nonneg z z])
  with p ok(2) show ?thesis by blast
qed

theorem C5_probability_bounds_witness:
  "ProbabilitySpace nan_arith heavy_num = Inr heavy_num_space \<and>
   sorted_wrt (<) (map fst heavy_num) \<and> sorted_wrt (<) [1 :: int] \<and>
   set [1] \<subseteq> Omega heavy_num \<and> ordered_addition nan_arith \<and>
   \<not> (\<exists>v\<in>snd ` set heavy_num. isnan nan_arith v) \<and>
   probabilityOfSet nan_arith (setIgnoreUnknown False heavy_num_space) [1]
     = Inr (Num (1 + 1 / 2 ^ 31)) \<and>
   d_le nan_arith (d_zero nan_arith) (Num (1 + 1 / 2 ^ 31)) \<and>
   d_le nan_arith (Num (1 + 1 / 2 ^ 31)) (d_sum nan_arith (map snd heavy_num)) \<and>
   d_less nan_arith (d_one nan_arith) (Num (1 + 1 / 2 ^ 31))"
proof -
  have k: "sorted_wrt (<) (map fst heavy_num)" and e: "sorted_wrt (<) [1 :: int]"
    and s: "set [1] \<subseteq> Omega heavy_num"
    by (simp_all add: heavy_num_def Omega_def)
  have n: "\<forall>v\<in>snd ` set heavy_num. \<not> isnan nan_arith v"
    by (simp add: heavy_num_def isnan_nan_arith)
  have v: "probabilityOfSet nan_arith (setIgnoreUnknown False heavy_num_space) [1]
             = Inr (Num (1 + 1 / 2 ^ 31))"
    by (simp add: eval_defs heavy_num_def heavy_num_space_def nan_arith_simps del: not_None_eq)
  have g: "d_less nan_arith (d_one nan_arith) (Num (1 + 1 / 2 ^ 31))"
    by (simp add: nan_arith_simps)
  from C5_probability_bounds
    [OF heavy_num_constructed k e s ordered_addition_nan_arith n, of False]
  obtain p where
    p: "probabilityOfSet nan_arith (setIgnoreUnknown False heavy_num_space) [1] = Inr p"
    and b: "d_le nan_arith (d_zero nan_arith) p"
      "d_le nan_arith p (d_sum nan_arith (map snd heavy_num))"
    by blast
  from p v have "p = Num (1 + 1 / 2 ^ 31)" by (metis sum.inject(2))
  with b v k e s n g heavy_num_constructed ordered_addition_nan_arith show ?thesis by blast
qed

text \<open>
  C5, as stated, fails: the constructor accepts a total mass above one within the
  tolerance, and the probability of the whole sample space is that total.
\<close>

theorem C5_counterexample:
  "ProbabilitySpace real_arith heavy = Inr heavy_space \<and>
   sorted_wrt (<) [1 :: int] \<and> set [1] \<subseteq> Omega heavy \<and>
   probabilityOfSet real_arith heavy_space [1] = Inr (1 + 1 / 2 ^ 31) \<and>
   \<not> (1 + 1 / 2 ^ 31 \<le> (1 :: real))"
  by (simp add: eval_defs heavy_def heavy_space_def del: not_None_eq)



text \<open>
  C7. On a constructed space and for events inside the sample space, each of the five
  queries gives the same result in strict and in permissive mode.
\<close>

theorem C7_mode_independent:
  assumes "ProbabilitySpace ar m = Inr ps" and "sorted_wrt (<) a" and "sorted_wrt (<) b"
    and "set a \<subseteq> Omega m" and "set b \<subseteq> Omega m"
  shows
    "probabilityOfSet ar (setIgnoreUnknown False ps) a
        = probabilityOfSet ar (setIgnoreUnknown True ps) a \<and>
     complementOfEvent ar (setIgnoreUnknown False ps) a
        = complementOfEvent ar (setIgnoreUnknown True ps) a \<and>
     unionOfEvents ar (setIgnoreUnknown False ps) a b
        = unionOfEvents ar (setIgnoreUnknown True ps) a b \<and>
     intersectionOfEvents ar (setIgnoreUnknown False ps) a b
        = intersectionOfEvents ar (setIgnoreUnknown True ps) a b \<and>
     conditionalProbability ar (setIgnoreUnknown False ps) a b
        = conditionalProbability ar (setIgnoreUnknown True ps) a b"
proof -
  note wf = events_constructed(2) [OF assms(1)]
  note sp = events_constructed(1) [OF assms(1)]
  show ?thesis
    using assms(2-) by (simp add: query_defs query_eqs wf sp setIgnoreUnknown_simps)
qed

theorem C7_mode_independent_witness:
  "ProbabilitySpace real_arith die = Inr noppa \<and>
   sorted_wrt (<) [1, 2, 3 :: int] \<and> sorted_wrt (<) [2, 3, 4 :: int] \<and>
   set [1, 2, 3] \<subseteq> Omega die \<and> set [2, 3, 4] \<subseteq> Omega die \<and>
   unionOfEvents real_arith (setIgnoreUnknown False noppa) [1, 2, 3] [2, 3, 4] = Inr (4 / 6) \<and>
   unionOfEvents real_arith (setIgnoreUnknown True noppa) [1, 2, 3] [2, 3, 4] = Inr (4 / 6)"
proof -
  have a: "sorted_wrt (<) [1, 2, 3 :: int]" and b: "sorted_wrt (<) [2, 3, 4 :: int]"
    by simp_all
  have sa: "set [1, 2, 3] \<subseteq> Omega die" and sb: "set [2, 3, 4] \<subseteq> Omega die"
    by (simp_all add: Omega_def die_def)
  have v: "unionOfEvents real_arith (setIgnoreUnknown True noppa) [1, 2, 3] [2, 3, 4] = Inr (4 / 6)"
    by (simp add: eval_defs noppa_def die_def del: not_None_eq)
  from C7_mode_independent [OF noppa_constructed a b sa sb] v a b sa sb noppa_constructed
  show ?thesis by simp
qed

text \<open>
  C8. \<open>setIgnoreUnknown(mode)\<close> leaves the stored mass function and the sample space of
  any object as they are and makes \<open>getCurrentMode()\<close> return \<open>mode\<close>; a call of any other
  member leaves the whole object as it is. Hence after any sequence of calls on a
  constructed object the mass function is the one given to the constructor, the sample
  space is the one derived then, and \<open>getCurrentMode()\<close> returns the flag most recently
  set, \<open>False\<close> if none was. No call reports an invalid distribution, whatever the stored
  mass function is: it is validated by the constructor only.
\<close>

theorem C8_frame:
  assumes "ProbabilitySpace ar m = Inr ps"
  shows
    "space (setIgnoreUnknown mode s) = space s \<and>
     events (setIgnoreUnknown mode s) = events s \<and>
     getCurrentMode (setIgnoreUnknown mode s) = mode \<and>
     ((\<forall>b. c \<noteq> Call_setIgnoreUnknown b) \<longrightarrow> snd (member_call ar c s) = s) \<and>
     space (run_calls ar ps cs) = m \<and>
     events (run_calls ar ps cs) = events ps \<and>
     getCurrentMode (run_calls ar ps cs) = last_mode_set cs False \<and>
     getCurrentMode ps = False \<and>
     fst (member_call ar c s) \<noteq> Returned_double (Inl NegativeMass) \<and>
     fst (member_call ar c s) \<noteq> Returned_double (Inl SumMismatch)"
proof -
  have 2: "fst (member_call ar c s) \<noteq> Returned_double (Inl NegativeMass) \<and>
     fst (member_call ar c s) \<noteq> Returned_double (Inl SumMismatch)"
  proof (cases c)
    case (Call_probabilityOfSet e)
    then show ?thesis
      using probabilityCalculator_Inl [of ar s e] exn_distinct
      by (auto simp: probabilityOfSet_def)
  next
    case (Call_complementOfEvent e)
    then show ?thesis
      using probabilityCalculator_Inl [of ar s e] exn_distinct
      by (auto simp: complementOfEvent_def complement_def split: sum.splits)
  next
    case (Call_unionOfEvents a b)
    then show ?thesis
      using unionEvents_Inl [of ar s a b] exn_distinct
      by (auto simp: unionOfEvents_def)
  next
    case (Call_intersectionOfEvents a b)
    then show ?thesis
      using intersectionEvents_Inl [of ar s a b] exn_distinct
      by (auto simp: intersectionOfEvents_def)
  next
    case (Call_conditionalProbability a b)
    then show ?thesis
      using priv_conditionalProbability_Inl [of ar s a b] exn_distinct
      by (auto simp: conditionalProbability_def)
  qed simp_all
  have 1: "(\<forall>b. c \<noteq> Call_setIgnoreUnknown b) \<longrightarrow> snd (member_call ar c s) = s"
    by (cases c) auto
  from run_calls_frame [of ar ps cs] events_constructed [OF assms] 1 2 show ?thesis
    by (simp add: setIgnoreUnknown_simps getCurrentMode_def)
qed

theorem C8_frame_witness:
  "ProbabilitySpace real_arith die = Inr noppa \<and>
   (\<forall>b. Call_probabilityOfSet [7 :: int] \<noteq> Call_setIgnoreUnknown b) \<and>
   snd (member_call real_arith (Call_probabilityOfSet [7]) noppa) = noppa \<and>
   space (run_calls real_arith noppa
     [Call_probabilityOfSet [7], Call_setIgnoreUnknown True, Call_probabilityOfSet [7],
      Call_setIgnoreUnknown False, Call_conditionalProbability [3] []]) = die \<and>
   getCurrentMode (run_calls real_arith noppa
     [Call_probabilityOfSet [7], Call_setIgnoreUnknown True, Call_probabilityOfSet [7],
      Call_setIgnoreUnknown False, Call_conditionalProbability [3] []]) = False \<and>
   getCurrentMode (run_calls real_arith noppa
     [Call_setIgnoreUnknown False, Call_setIgnoreUnknown True, Call_getCurrentMode]) = True"
proof -
  have d: "\<forall>b. Call_probabilityOfSet [7 :: int] \<noteq> Call_setIgnoreUnknown b" by simp
  from C8_frame [OF noppa_constructed, of True noppa "Call_probabilityOfSet [7]"
      "[Call_probabilityOfSet [7], Call_setIgnoreUnknown True, Call_probabilityOfSet [7],
        Call_setIgnoreUnknown False, Call_conditionalProbability [3] []]"]
    C8_frame [OF noppa_constructed, of True noppa "Call_probabilityOfSet [7]"
      "[Call_setIgnoreUnknown False, Call_setIgnoreUnknown True, Call_getCurrentMode]"]
    d noppa_constructed
  show ?thesis by simp
qed

text \<open>
  C9. A caller can tell the three kinds of error apart by the message of the exception:
  the constructor fails only with one of the two invalid-distribution messages; the
  probability, complement, union and intersection queries fail only with the
  unknown-outcome message; the conditional query fails only with the unknown-outcome or
  the condition-on-zero message; and the messages of different kinds are different
  strings.
\<close>

theorem C9_kinds_distinguishable:
  "(ProbabilitySpace ar m = Inl x \<longrightarrow>
      (x = NegativeMass \<or> x = SumMismatch) \<and> kind_of x = Some InvalidDistribution_kind) \<and>
   (probabilityOfSet ar ps a = Inl x \<longrightarrow>
      x = UnknownOutcome \<and> kind_of x = Some UnknownOutcome_kind) \<and>
   (complementOfEvent ar ps a = Inl x \<longrightarrow>
      x = UnknownOutcome \<and> kind_of x = Some UnknownOutcome_kind) \<and>
   (unionOfEvents ar ps a b = Inl x \<longrightarrow>
      x = UnknownOutcome \<and> kind_of x = Some UnknownOutcome_kind) \<and>
   (intersectionOfEvents ar ps a b = Inl x \<longrightarrow>
      x = UnknownOutcome \<and> kind_of x = Some UnknownOutcome_kind) \<and>
   (conditionalProbability ar ps a b = Inl x \<longrightarrow>
      (x = UnknownOutcome \<and> kind_of x = Some UnknownOutcome_kind) \<or>
      (x = ConditionOnZero \<and> kind_of x = Some ConditionOnZero_kind)) \<and>
   what NegativeMass \<noteq> what UnknownOutcome \<and> what NegativeMass \<noteq> what ConditionOnZero \<and>
   what SumMismatch \<noteq> what UnknownOutcome \<and> what SumMismatch \<noteq> what ConditionOnZero \<and>
   what UnknownOutcome \<noteq> what ConditionOnZero"
proof -
  have 1: "ProbabilitySpace ar m = Inl x \<longrightarrow>
      (x = NegativeMass \<or> x = SumMismatch) \<and> kind_of x = Some InvalidDistribution_kind"
    by (auto simp: ProbabilitySpace_eq kind_of_simps split: if_splits)
  have 2: "probabilityOfSet ar ps a = Inl x \<longrightarrow>
      x = UnknownOutcome \<and> kind_of x = Some UnknownOutcome_kind"
    by (auto simp: probabilityOfSet_def kind_of_simps dest: probabilityCalculator_Inl)
  have 3: "complementOfEvent ar ps a = Inl x \<longrightarrow>
      x = UnknownOutcome \<and> kind_of x = Some UnknownOutcome_kind"
    by (auto simp: complementOfEvent_def complement_def kind_of_simps
        dest: probabilityCalculator_Inl split: sum.splits)
  have 4: "unionOfEvents ar ps a b = Inl x \<longrightarrow>
      x = UnknownOutcome \<and> kind_of x = Some UnknownOutcome_kind"
    by (auto simp: unionOfEvents_def kind_of_simps dest: unionEvents_Inl)
  have 5: "intersectionOfEvents ar ps a b = Inl x \<longrightarrow>
      x = UnknownOutcome \<and> kind_of x = Some UnknownOutcome_kind"
    by (auto simp: intersectionOfEvents_def kind_of_simps dest: intersectionEvents_Inl)
  have 6: "conditionalProbability ar ps a b = Inl x \<longrightarrow>
      (x = UnknownOutcome \<and> kind_of x = Some UnknownOutcome_kind) \<or>
      (x = ConditionOnZero \<and> kind_of x = Some ConditionOnZero_kind)"
    by (auto simp: conditionalProbability_def kind_of_simps dest: priv_conditionalProbability_Inl)
  have 7: "what NegativeMass \<noteq> what UnknownOutcome \<and> what NegativeMass \<noteq> what ConditionOnZero \<and>
   what SumMismatch \<noteq> what UnknownOutcome \<and> what SumMismatch \<noteq> what ConditionOnZero \<and>
   what UnknownOutcome \<noteq> what ConditionOnZero"
    by (simp add: NegativeMass_def SumMismatch_def UnknownOutcome_def ConditionOnZero_def)
  from 1 2 3 4 5 6 7 show ?thesis by blast
qed

theorem C9_kinds_distinguishable_witness:
  "ProbabilitySpace real_arith negative_probability = Inl NegativeMass \<and>
   kind_of NegativeMass = Some InvalidDistribution_kind \<and>
   probabilityOfSet real_arith noppa [7] = Inl UnknownOutcome \<and>
   kind_of UnknownOutcome = Some UnknownOutcome_kind \<and>
   conditionalProbability real_arith noppa [3] [] = Inl ConditionOnZero \<and>
   kind_of ConditionOnZero = Some ConditionOnZero_kind"
proof -
  have n: "ProbabilitySpace real_arith negative_probability = Inl NegativeMass"
    by (simp add: ProbabilitySpace_real negative_probability_def)
  have u: "probabilityOfSet real_arith noppa [7] = Inl UnknownOutcome"
    by (simp add: eval_defs noppa_def die_def del: not_None_eq)
  have z: "conditionalProbability real_arith noppa [3] [] = Inl ConditionOnZero"
    by (simp add: eval_defs noppa_def die_def del: not_None_eq)
  from C9_kinds_distinguishable [of real_arith negative_probability NegativeMass noppa "[7]" "[]"]
    C9_kinds_distinguishable [of real_arith negative_probability UnknownOutcome noppa "[7]" "[]"]
    C9_kinds_distinguishable [of real_arith negative_probability ConditionOnZero noppa "[3]" "[]"]
    n u z
  show ?thesis by (simp add: exn_distinct)
qed

text \<open>
  C10. The two-event queries are commutative in their arguments:
  \<open>unionOfEvents(A, B) = unionOfEvents(B, A)\<close> and
  \<open>intersectionOfEvents(A, B) = intersectionOfEvents(B, A)\<close>, as the same double or the same
  exception, for every arithmetic, every object and all events (strictly ascending lists,
  as every \<^verbatim>\<open>std::set\<close> is), accepted by the mode or not.
\<close>

theorem C10_commutative:
  assumes "sorted_wrt (<) a" and "sorted_wrt (<) b"
  shows "unionOfEvents ar ps a b = unionOfEvents ar ps b a \<and>
         intersectionOfEvents ar ps a b = intersectionOfEvents ar ps b a"
  using assms
  by (simp add: unionOfEvents_def intersectionOfEvents_def unionEvents_def
      intersectionEvents_def isSubset_def std_set_union_commute [of a b]
      std_set_intersection_commute [of a b])

theorem C10_commutative_witness:
  "sorted_wrt (<) [1, 2, 3 :: int] \<and> sorted_wrt (<) [2, 3, 4 :: int] \<and>
   unionOfEvents real_arith noppa [1, 2, 3] [2, 3, 4] = Inr (4 / 6) \<and>
   unionOfEvents real_arith noppa [2, 3, 4] [1, 2, 3] = Inr (4 / 6) \<and>
   intersectionOfEvents real_arith noppa [1, 2, 3] [2, 3, 4] = Inr (2 / 6) \<and>
   intersectionOfEvents real_arith noppa [2, 3, 4] [1, 2, 3] = Inr (2 / 6)"
proof -
  have a: "sorted_wrt (<) [1, 2, 3 :: int]" and b: "sorted_wrt (<) [2, 3, 4 :: int]"
    by simp_all
  have u: "unionOfEvents real_arith noppa [1, 2, 3] [2, 3, 4] = Inr (4 / 6)"
    by (simp add: unionOfEvents_def unionEvents_def isSubset_def probabilityCalculator_def
        noppa_def die_def real_arith_def del: not_None_eq)
  have i: "intersectionOfEvents real_arith noppa [1, 2, 3] [2, 3, 4] = Inr (2 / 6)"
    by (simp add: intersectionOfEvents_def intersectionEvents_def isSubset_def
        probabilityCalculator_def noppa_def die_def real_arith_def del: not_None_eq)
  from C10_commutative [OF a b, of real_arith noppa] u i a b show ?thesis
    by simp
qed

end
